theory Spec2Isabelle
  imports Complex_Main "HOL-Library.Word" "HOL-Library.Sublist"
begin

unbundle bit_operations_syntax

section \<open>Go errors\<close>

text \<open>
  A Go \<open>error\<close> value is either \<open>nil\<close> or an error; the model writes it as
  \<open>go_error option\<close> with \<open>None\<close> for \<open>nil\<close>. The constructors are the ways the two
  source files build errors:
  \<^item> \<open>New msg\<close>: \<open>errors.New(msg)\<close>, and \<open>fmt.Errorf\<close> without a \<open>%w\<close> verb (the
    message is the rendered format);
  \<^item> \<open>Errorf_w pre err\<close>: \<open>fmt.Errorf(pre + "%w", err)\<close>;
  \<^item> \<open>Wrap err msg\<close>: \<open>errors.Wrap(err, msg)\<close> and \<open>errors.Wrapf\<close> of
    \<open>github.com/pkg/errors\<close>;
  \<^item> \<open>Multi errs\<close>: the aggregate that \<open>multierr.Combine\<close> builds.
  Errors handed in by collaborators (the container runtime, the storage layer) are
  arbitrary values of the same type.
\<close>

datatype go_error =
    New string
  | Errorf_w string go_error
  | Wrap go_error string
  | Multi "go_error list"

type_synonym error = "go_error option"

fun join_strings :: "string \<Rightarrow> string list \<Rightarrow> string" where
  "join_strings sep [] = []"
| "join_strings sep [s] = s"
| "join_strings sep (s # t # ss) = s @ sep @ join_strings sep (t # ss)"

text \<open>The method \<open>Error()\<close>: the message of an error.\<close>

fun Error :: "go_error \<Rightarrow> string" where
  "Error (New msg) = msg"
| "Error (Errorf_w pre err) = pre @ Error err"
| "Error (Wrap err msg) = msg @ '': '' @ Error err"
| "Error (Multi errs) = join_strings ''; '' (map Error errs)"

text \<open>
  \<open>multierr.Errors\<close>: the errors an error value stands for (none for \<open>nil\<close>, the members
  of an aggregate, the error itself otherwise).
\<close>

fun Errors :: "error \<Rightarrow> go_error list" where
  "Errors None = []"
| "Errors (Some (Multi errs)) = errs"
| "Errors (Some err) = [err]"

text \<open>
  \<open>multierr.Combine\<close>: \<open>nil\<close> arguments are skipped; no error left gives \<open>nil\<close>, a single
  one is returned as it is, several are flattened into one aggregate.
\<close>

definition Combine :: "error list \<Rightarrow> error" where
  "Combine errs =
     (case List.map_filter id errs of
        [] \<Rightarrow> None
      | [err] \<Rightarrow> Some err
      | nonNil \<Rightarrow> Some (Multi (concat (map (\<lambda>err. Errors (Some err)) nonNil))))"

text \<open>\<open>strings.Contains(s, substr)\<close>.\<close>

definition Contains :: "string \<Rightarrow> string \<Rightarrow> bool" where
  "Contains s substr = sublist substr s"

section \<open>Request verification (pkg/requester/publicapi/utils.go)\<close>

text \<open>
  Of the job-create payload the function reads the client ID only; the other fields stay
  in the record's extension. The three helpers \<open>system.PublicKeyMatchesID\<close>,
  \<open>model.JSONMarshalWithMax\<close> and \<open>system.Verify\<close> are parameters of the model.
\<close>

record JobCreatePayload =
  ClientID :: string

record 'p submitRequest =
  JobCreatePayload :: "'p JobCreatePayload_scheme"
  ClientSignature :: string
  ClientPublicKey :: string

definition verifySubmitRequest ::
  "(string \<Rightarrow> string \<Rightarrow> bool \<times> error) \<Rightarrow>
   ('p JobCreatePayload_scheme \<Rightarrow> go_error + string) \<Rightarrow>
   (string \<Rightarrow> string \<Rightarrow> string \<Rightarrow> error) \<Rightarrow>
   'p submitRequest \<Rightarrow> error" where
  "verifySubmitRequest PublicKeyMatchesID JSONMarshalWithMax Verify req =
     (if ClientID (JobCreatePayload req) = [] then
        Some (New ''job create payload must contain a client ID'')
      else if ClientSignature req = [] then
        Some (New ''client's signature is required'')
      else if ClientPublicKey req = [] then
        Some (New ''client's public key is required'')
      else
        (case PublicKeyMatchesID (ClientPublicKey req) (ClientID (JobCreatePayload req)) of
           (ok, Some err) \<Rightarrow> Some (Errorf_w ''error verifying client ID: '' err)
         | (ok, None) \<Rightarrow>
             if \<not> ok then Some (New ''client's public key does not match client ID'')
             else
               (case JSONMarshalWithMax (JobCreatePayload req) of
                  Inl err \<Rightarrow> Some (Errorf_w ''error marshaling job data: '' err)
                | Inr jsonData \<Rightarrow>
                    (case Verify jsonData (ClientSignature req) (ClientPublicKey req) of
                       Some err \<Rightarrow> Some (Errorf_w ''client's signature is invalid: '' err)
                     | None \<Rightarrow> None))))"

section \<open>Machine numbers\<close>

text \<open>
  \<open>int64\<close> and \<open>uint64\<close> are 64-bit words, read with \<open>sint\<close> and \<open>unat\<close>; the
  conversion \<open>int64(x)\<close> of a \<open>uint64\<close> keeps the bits. Go's \<open>int\<close> is taken to be 64 bits
  wide. A \<open>float64\<close> is its IEEE 754 binary64 bit pattern: sign (bit 63), biased
  exponent (bits 52 to 62) and fraction (bits 0 to 51).
\<close>

type_synonym int64 = "64 word"
type_synonym uint64 = "64 word"
type_synonym float64 = "64 word"
type_synonym FileMode = "32 word"

definition f64_sign :: "float64 \<Rightarrow> bool" where
  "f64_sign x = (unat x div 2 ^ 63 = 1)"

definition f64_exp :: "float64 \<Rightarrow> nat" where
  "f64_exp x = (unat x div 2 ^ 52) mod 2 ^ 11"

definition f64_frac :: "float64 \<Rightarrow> nat" where
  "f64_frac x = unat x mod 2 ^ 52"

definition f64_make :: "bool \<Rightarrow> nat \<Rightarrow> nat \<Rightarrow> float64" where
  "f64_make s e f = word_of_nat ((if s then 2 ^ 63 else 0) + e * 2 ^ 52 + f)"

definition f64_is_nan :: "float64 \<Rightarrow> bool" where
  "f64_is_nan x = (f64_exp x = 2047 \<and> f64_frac x \<noteq> 0)"

definition f64_is_inf :: "float64 \<Rightarrow> bool" where
  "f64_is_inf x = (f64_exp x = 2047 \<and> f64_frac x = 0)"

definition f64_is_finite :: "float64 \<Rightarrow> bool" where
  "f64_is_finite x = (f64_exp x < 2047)"

definition f64_is_zero :: "float64 \<Rightarrow> bool" where
  "f64_is_zero x = (f64_exp x = 0 \<and> f64_frac x = 0)"

text \<open>
  A finite \<open>float64\<close> is \<open>\<plusminus> f64_mant \<times> 2 ^ f64_expo\<close>: subnormal numbers (exponent
  field 0) have no hidden bit.
\<close>

definition f64_mant :: "float64 \<Rightarrow> nat" where
  "f64_mant x = (if f64_exp x = 0 then f64_frac x else 2 ^ 52 + f64_frac x)"

definition f64_expo :: "float64 \<Rightarrow> int" where
  "f64_expo x = (if f64_exp x = 0 then - 1074 else int (f64_exp x) - 1075)"

definition f64_val :: "float64 \<Rightarrow> rat" where
  "f64_val x = (if f64_sign x then - 1 else 1) * of_nat (f64_mant x) * 2 powi f64_expo x"

fun bit_length :: "nat \<Rightarrow> nat" where
  "bit_length n = (if n = 0 then 0 else Suc (bit_length (n div 2)))"

declare bit_length.simps [simp del]

text \<open>\<open>m / 2 ^ k\<close> rounded to the nearest integer, ties to the even one.\<close>

definition round_nearest_even :: "nat \<Rightarrow> nat \<Rightarrow> nat" where
  "round_nearest_even m k =
     (let q = m div 2 ^ k; r = m mod 2 ^ k
      in if 2 * r > 2 ^ k \<or> (2 * r = 2 ^ k \<and> odd q) then q + 1 else q)"

text \<open>
  The \<open>float64\<close> nearest to \<open>\<plusminus> m \<times> 2 ^ e\<close> (round to nearest, ties to even, the
  rounding of IEEE 754 arithmetic): the significand is cut to 53 bits, fewer below the
  normal range, and a result of \<open>2 ^ 1024\<close> or more is an infinity.
\<close>

definition f64_round :: "bool \<Rightarrow> nat \<Rightarrow> int \<Rightarrow> float64" where
  "f64_round s m e =
     (if m = 0 then f64_make s 0 0
      else
        let e1 = max (e + int (bit_length m) - 53) (- 1074);
            m1 = (if e1 \<le> e then m * 2 ^ nat (e - e1) else round_nearest_even m (nat (e1 - e)));
            m2 = (if m1 = 2 ^ 53 then 2 ^ 52 else m1);
            e2 = (if m1 = 2 ^ 53 then e1 + 1 else e1)
        in if e2 > 971 then f64_make s 2047 0
           else if m2 < 2 ^ 52 then f64_make s 0 m2
           else f64_make s (nat (e2 + 1075)) (m2 - 2 ^ 52))"

definition f64_nan :: float64 where
  "f64_nan = f64_make False 2047 (2 ^ 51)"

text \<open>The product \<open>x * y\<close> of two \<open>float64\<close> values.\<close>

definition f64_mul :: "float64 \<Rightarrow> float64 \<Rightarrow> float64" where
  "f64_mul x y =
     (if f64_is_nan x \<or> f64_is_nan y then f64_nan
      else if f64_is_inf x \<or> f64_is_inf y then
        (if f64_is_zero x \<or> f64_is_zero y then f64_nan
         else f64_make (f64_sign x \<noteq> f64_sign y) 2047 0)
      else f64_round (f64_sign x \<noteq> f64_sign y) (f64_mant x * f64_mant y)
             (f64_expo x + f64_expo y))"

text \<open>An untyped integer constant converted to \<open>float64\<close>.\<close>

definition f64_of_nat :: "nat \<Rightarrow> float64" where
  "f64_of_nat n = f64_round False n 0"

text \<open>
  The conversion \<open>int64(x)\<close> of a \<open>float64\<close> drops the fraction (truncation towards
  zero). Where the result does not fit (and for infinities and NaN) the language leaves
  the value to the implementation: the parameter \<open>out_of_range\<close> gives it.
\<close>

definition f64_to_int64 :: "(float64 \<Rightarrow> int64) \<Rightarrow> float64 \<Rightarrow> int64" where
  "f64_to_int64 out_of_range x =
     (if f64_is_finite x then
        let t = (if 0 \<le> f64_expo x then int (f64_mant x) * 2 ^ nat (f64_expo x)
                 else int (f64_mant x) div 2 ^ nat (- f64_expo x));
            v = (if f64_sign x then - t else t)
        in if - (2 ^ 63) \<le> v \<and> v < 2 ^ 63 then word_of_int v else out_of_range x
      else out_of_range x)"

section \<open>The job model and the runtime's types\<close>

text \<open>
  The declarations of the packages \<open>model\<close>, \<open>storage\<close>, \<open>capacity\<close> and of the Docker
  client are not among the sources; the records hold the fields that
  \<open>executor.go\<close> reads or writes.
\<close>

record StorageSpec =
  Name :: string
  Path :: string

record StorageVolume =
  Type :: string
  Source :: string
  Target :: string

record ResourceUsageConfig =
  CPU :: string
  Memory :: string
  GPU :: string

record ResourceUsageData =
  CPU :: float64
  Memory :: uint64
  GPU :: uint64

record JobSpecDocker =
  Image :: string
  Entrypoint :: "string list"
  EnvironmentVariables :: "string list"
  WorkingDirectory :: string

record Spec =
  Docker :: JobSpecDocker
  Contexts :: "StorageSpec list"
  Outputs :: "StorageSpec list"
  Resources :: ResourceUsageConfig

record Metadata =
  ID :: string

record Job =
  Metadata :: Metadata
  Spec :: Spec

record JobShard =
  Job :: Job
  Index :: int

record Executor =
  ID :: string

datatype mount_Type = TypeBind | TypeVolume | TypeTmpfs | TypeNamedPipe | TypeCluster

record Mount =
  Type :: mount_Type
  ReadOnly :: bool
  Source :: string
  Target :: string

record DeviceRequest =
  DeviceIDs :: "string list"
  Capabilities :: "string list list"

record Resources =
  Memory :: int64
  NanoCPUs :: int64
  DeviceRequests :: "DeviceRequest list"

record HostConfig =
  Mounts :: "Mount list"
  Resources :: Resources

text \<open>The label map of a container is written as its list of key-value pairs.\<close>

record ContainerConfig =
  Image :: string
  Tty :: bool
  Env :: "string list"
  Entrypoint :: "string list"
  Labels :: "(string \<times> string) list"
  WorkingDir :: string

record WaitResponse =
  StatusCode :: int64
  Error_Message :: "string option"

text \<open>
  What the \<open>select\<close> over the two channels of \<open>ContainerWait\<close> receives: a value of the
  error channel, or an exit status.
\<close>

datatype wait_outcome = FromErrCh error | FromStatusCh WaitResponse

text \<open>
  Contexts, as far as the executor derives them: the background context, a context of
  the caller, and the derivations by timeout (in nanoseconds), tracing span and logger
  field.
\<close>

datatype ctx =
    Background
  | Caller nat
  | WithTimeout ctx nat
  | WithSpan ctx string
  | WithLogger ctx string string

datatype Level = DebugLevel | ErrorLevel

text \<open>A stream of the container's output: \<open>None\<close> is the \<open>nil\<close> reader.\<close>

type_synonym pipe = "string option"

section \<open>The collaborators\<close>

text \<open>
  Everything \<open>RunShard\<close> calls outside \<open>executor.go\<close> is a field of the environment:
  the configuration, the storage layer, the formatting and path functions of the
  standard library, and the container runtime. \<open>Mkdir_fails\<close> gives the failures of
  \<open>os.Mkdir\<close> other than an existing directory. Where a statement depends on what
  \<open>filepath.Join\<close> returns, it takes \<open>filepath_Join\<close> to be \<open>Join\<close> of the next section.
\<close>

record env =
  ShouldKeepStack :: bool
  Getenv :: "string \<Rightarrow> string"
  shard_ID :: "JobShard \<Rightarrow> string"
  fmt_plus_v :: "StorageSpec \<Rightarrow> string"
  fmt_q :: "string \<Rightarrow> string"
  filepath_Join :: "string \<Rightarrow> string \<Rightarrow> string"
  Mkdir_fails :: "string \<Rightarrow> error"
  out_of_range_int64 :: "float64 \<Rightarrow> int64"
  GetShardStorageSpec :: "ctx \<Rightarrow> JobShard \<Rightarrow> go_error + StorageSpec list"
  ParallelPrepareStorage ::
    "ctx \<Rightarrow> StorageSpec list \<Rightarrow> go_error + (StorageSpec \<times> StorageVolume) list"
  PullImage :: "ctx \<Rightarrow> string \<Rightarrow> error"
  JSONMarshalWithMax :: "Spec \<Rightarrow> go_error + string"
  ParseResourceUsageConfig :: "ResourceUsageConfig \<Rightarrow> ResourceUsageData"
  setupNetworkForJob ::
    "ctx \<Rightarrow> JobShard \<Rightarrow> ContainerConfig \<Rightarrow> HostConfig \<Rightarrow>
     go_error + ContainerConfig \<times> HostConfig"
  ContainerCreate :: "ctx \<Rightarrow> ContainerConfig \<Rightarrow> HostConfig \<Rightarrow> string \<Rightarrow> go_error + string"
  ContainerStart :: "ctx \<Rightarrow> string \<Rightarrow> error"
  FollowLogs :: "ctx \<Rightarrow> string \<Rightarrow> pipe \<times> pipe \<times> error"
  ContainerWait :: "ctx \<Rightarrow> string \<Rightarrow> wait_outcome"
  RemoveObjectsWithLabel :: "ctx \<Rightarrow> string \<Rightarrow> string \<Rightarrow> error"

section \<open>Paths (path/filepath on Unix)\<close>

text \<open>
  \<open>filepath.Join\<close> and \<open>filepath.Clean\<close> belong to Go's standard library, not to the
  repository; they are written here after their documentation, on the elements of a path
  instead of its bytes. A path is split at every separator, so that a doubled, leading or
  trailing separator leaves an empty element.
\<close>

fun path_elements :: "string \<Rightarrow> string list" where
  "path_elements [] = [[]]"
| "path_elements (c # cs) =
     (if c = CHR ''/'' then [] # path_elements cs
      else (case path_elements cs of
              [] \<Rightarrow> [[c]]
            | el # els \<Rightarrow> (c # el) # els))"

text \<open>
  The elements are read from left to right and the kept ones collected: an empty element
  and \<open>.\<close> are dropped; \<open>..\<close> removes the last kept element when there is one that is
  not itself \<open>..\<close>, is dropped at the root of a rooted path, and is kept otherwise.
\<close>

fun Clean_elements :: "bool \<Rightarrow> string list \<Rightarrow> string list \<Rightarrow> string list" where
  "Clean_elements rooted [] kept = kept"
| "Clean_elements rooted (el # els) kept =
     (if el = [] \<or> el = ''.'' then Clean_elements rooted els kept
      else if el = ''..'' then
        (if kept \<noteq> [] \<and> last kept \<noteq> ''..'' then Clean_elements rooted els (butlast kept)
         else if \<not> rooted then Clean_elements rooted els (kept @ [''..''])
         else Clean_elements rooted els kept)
      else Clean_elements rooted els (kept @ [el]))"

text \<open>
  \<open>Clean\<close>: the empty path is \<open>.\<close>; a rooted path keeps its leading separator; a path
  of which nothing is kept is \<open>/\<close> when rooted and \<open>.\<close> otherwise.
\<close>

definition Clean :: "string \<Rightarrow> string" where
  "Clean path =
     (if path = [] then ''.''
      else
        let rooted = (hd path = CHR ''/'');
            kept = Clean_elements rooted (path_elements path) []
        in if rooted then ''/'' @ join_strings ''/'' kept
           else if kept = [] then ''.''
           else join_strings ''/'' kept)"

text \<open>
  \<open>Join\<close> skips the leading empty elements, joins the others with the separator and
  cleans the result; without a non-empty element the result is the empty string.
\<close>

fun Join :: "string list \<Rightarrow> string" where
  "Join [] = []"
| "Join (e # elem) = (if e = [] then Join elem else Clean (join_strings ''/'' (e # elem)))"

section \<open>The world the executor acts on\<close>

text \<open>
  The host's directories (path to permission bits, as requested from \<open>os.Mkdir\<close>) and the
  calls made to the container runtime, in order, with the one log line of the cleanup.
  The trace and debug log lines and the tracing span of \<open>RunShard\<close> are not recorded.
\<close>

datatype event =
    Call_PullImage ctx string
  | Call_setupNetworkForJob ctx ContainerConfig HostConfig
  | Call_ContainerCreate ctx ContainerConfig HostConfig string
  | Call_ContainerStart ctx string
  | Call_FollowLogs ctx string
  | Call_ContainerWait ctx string
  | Call_RemoveObjectsWithLabel ctx string string
  | Log_Msg ctx Level error string

record world =
  dirs :: "string \<rightharpoonup> FileMode"
  calls :: "event list"

definition emit :: "event \<Rightarrow> world \<Rightarrow> world" where
  "emit ev w = w\<lparr>calls := calls w @ [ev]\<rparr>"

text \<open>
  \<open>os.Mkdir(name, perm)\<close>: an existing path is an error; otherwise the call fails as the
  environment says, or creates the directory.
\<close>

definition Mkdir :: "env \<Rightarrow> string \<Rightarrow> FileMode \<Rightarrow> world \<Rightarrow> error \<times> world" where
  "Mkdir env name perm w =
     (if dirs w name \<noteq> None then (Some (New (''mkdir '' @ name @ '': file exists'')), w)
      else
        (case Mkdir_fails env name of
           Some err \<Rightarrow> (Some err, w)
         | None \<Rightarrow> (None, w\<lparr>dirs := (dirs w)(name \<mapsto> perm)\<rparr>)))"

text \<open>
  Modelled from the spec: \<open>executor.FailResult\<close>, \<open>executor.WriteJobResults\<close> and the
  result type are not among the sources. The result of \<open>RunShard\<close> is the call it
  returns, with its arguments; the arguments of \<open>WriteJobResults\<close> are named after the
  fields of the spec's result (captured stdout and stderr, exit code, combined error).
\<close>

datatype run_result =
    FailResult go_error
  | WriteJobResults (resultsDir: string) (stdout: pipe) (stderr: pipe) (exitCode: int)
      (combinedError: error)

section \<open>The Docker executor (pkg/executor/docker/executor.go)\<close>

definition NanoCPUCoefficient :: nat where
  "NanoCPUCoefficient = 1000000000"

definition labelExecutorName :: string where
  "labelExecutorName = ''bacalhau-executor''"

definition labelJobName :: string where
  "labelJobName = ''bacalhau-jobID''"

text \<open>
  Modelled from the spec: the constant \<open>storage.StorageVolumeConnectorBind\<close> is not among
  the sources; the spec names the access kind "bind".
\<close>

definition StorageVolumeConnectorBind :: string where
  "StorageVolumeConnectorBind = ''bind''"

text \<open>
  Modelled from the spec: the permission constants of \<open>pkg/storage/util\<close> are not among
  the sources. By their names and the spec (owner read, write and execute; everyone else
  read and execute) they are the usual permission bits: read 4, write 2, execute 1,
  shifted by 6 for the owner, by 3 for the group and by 0 for the others.
\<close>

definition OS_ALL_R :: FileMode where
  "OS_ALL_R = push_bit 6 4 OR push_bit 3 4 OR 4"

definition OS_ALL_X :: FileMode where
  "OS_ALL_X = push_bit 6 1 OR push_bit 3 1 OR 1"

definition OS_USER_W :: FileMode where
  "OS_USER_W = push_bit 6 2"

definition Minute :: nat where
  "Minute = 60 * 1000000000"

subsection \<open>Names and labels\<close>

function digits :: "nat \<Rightarrow> string" where
  "digits n = (if n < 10 then [''0123456789'' ! n] else digits (n div 10) @ [''0123456789'' ! (n mod 10)])"
  by pat_completeness auto
termination
  by (relation "measure id") auto

declare digits.simps [simp del]

text \<open>\<open>fmt.Sprint\<close> of an \<open>int\<close>: its decimal numeral.\<close>

definition Sprint :: "int \<Rightarrow> string" where
  "Sprint i = (if i < 0 then ''-'' @ digits (nat (- i)) else digits (nat i))"

definition dockerObjectName :: "Executor \<Rightarrow> JobShard \<Rightarrow> string list \<Rightarrow> string" where
  "dockerObjectName e shard parts =
     (let strs = [''bacalhau'', Executor.ID e, Metadata.ID (Metadata (Job shard)),
                  Sprint (Index shard)];
          strs = strs @ parts
      in join_strings ''-'' strs)"

definition jobContainerName :: "Executor \<Rightarrow> JobShard \<Rightarrow> string" where
  "jobContainerName e shard = dockerObjectName e shard [''executor'']"

definition labelJobValue :: "env \<Rightarrow> Executor \<Rightarrow> JobShard \<Rightarrow> string" where
  "labelJobValue env e shard = Executor.ID e @ shard_ID env shard"

definition jobContainerLabels :: "env \<Rightarrow> Executor \<Rightarrow> JobShard \<Rightarrow> (string \<times> string) list" where
  "jobContainerLabels env e shard =
     [(labelExecutorName, Executor.ID e), (labelJobName, labelJobValue env e shard)]"

subsection \<open>Cleanup and cancellation\<close>

definition CancelShard :: "env \<Rightarrow> Executor \<Rightarrow> ctx \<Rightarrow> JobShard \<Rightarrow> world \<Rightarrow> error \<times> world" where
  "CancelShard env e ctx shard w =
     (RemoveObjectsWithLabel env ctx labelJobName (labelJobValue env e shard),
      emit (Call_RemoveObjectsWithLabel ctx labelJobName (labelJobValue env e shard)) w)"

definition cleanupJob :: "env \<Rightarrow> Executor \<Rightarrow> ctx \<Rightarrow> JobShard \<Rightarrow> world \<Rightarrow> world" where
  "cleanupJob env e ctx shard w =
     (if ShouldKeepStack env then w
      else
        let separateCtx = WithTimeout Background (1 * Minute);
            err = RemoveObjectsWithLabel env separateCtx labelJobName (labelJobValue env e shard);
            w1 = emit (Call_RemoveObjectsWithLabel separateCtx labelJobName
                         (labelJobValue env e shard)) w;
            logLevel = (if err = None then DebugLevel else ErrorLevel)
        in emit (Log_Msg ctx logLevel err ''Cleaned up job Docker resources'') w1)"

definition cleanupAll :: "env \<Rightarrow> Executor \<Rightarrow> ctx \<Rightarrow> world \<Rightarrow> world" where
  "cleanupAll env e ctx w =
     (if ShouldKeepStack env then w
      else
        let safeCtx = Background;
            err = RemoveObjectsWithLabel env safeCtx labelExecutorName (Executor.ID e);
            w1 = emit (Call_RemoveObjectsWithLabel safeCtx labelExecutorName (Executor.ID e)) w;
            logLevel = (if err = None then DebugLevel else ErrorLevel)
        in emit (Log_Msg ctx logLevel err ''Cleaned up all Docker resources'') w1)"

subsection \<open>RunShard\<close>

text \<open>
  The loop over the resolved input volumes. The volumes come as the list of the map's
  entries in the order in which the \<open>range\<close> statement visits them.
\<close>

fun RunShard_inputs :: "(StorageSpec \<times> StorageVolume) list \<Rightarrow> Mount list \<Rightarrow> go_error + Mount list" where
  "RunShard_inputs [] mounts = Inr mounts"
| "RunShard_inputs ((spec, volumeMount) # rest) mounts =
     (if StorageVolume.Type volumeMount = StorageVolumeConnectorBind then
        RunShard_inputs rest
          (mounts @ [\<lparr>Type = TypeBind, ReadOnly = True,
                       Source = StorageVolume.Source volumeMount,
                       Target = StorageVolume.Target volumeMount\<rparr>])
      else Inl (New (''unknown storage volume type: '' @ StorageVolume.Type volumeMount)))"

text \<open>The loop over the declared outputs.\<close>

fun RunShard_outputs ::
  "env \<Rightarrow> string \<Rightarrow> StorageSpec list \<Rightarrow> Mount list \<Rightarrow> world \<Rightarrow> (go_error + Mount list) \<times> world" where
  "RunShard_outputs env jobResultsDir [] mounts w = (Inr mounts, w)"
| "RunShard_outputs env jobResultsDir (output # rest) mounts w =
     (if Name output = [] then
        (Inl (New (''output volume has no name: '' @ fmt_plus_v env output)), w)
      else if Path output = [] then
        (Inl (New (''output volume has no path: '' @ fmt_plus_v env output)), w)
      else
        let srcd = filepath_Join env jobResultsDir (Name output) in
        (case Mkdir env srcd (OS_ALL_R OR OS_ALL_X OR OS_USER_W) w of
           (Some err, w1) \<Rightarrow> (Inl err, w1)
         | (None, w1) \<Rightarrow>
             RunShard_outputs env jobResultsDir rest
               (mounts @ [\<lparr>Type = TypeBind, ReadOnly = False, Source = srcd,
                            Target = Path output\<rparr>]) w1))"

text \<open>Lines 277 to 305: follow the logs, wait, and write the results.\<close>

definition RunShard_wait :: "env \<Rightarrow> ctx \<Rightarrow> string \<Rightarrow> string \<Rightarrow> world \<Rightarrow> run_result \<times> world" where
  "RunShard_wait env ctx jobResultsDir containerID w =
     (case FollowLogs env ctx containerID of
        (stdoutPipe, stderrPipe, logsErr) \<Rightarrow>
          let w1 = emit (Call_FollowLogs ctx containerID) w;
              w2 = emit (Call_ContainerWait ctx containerID) w1
          in (case (case ContainerWait env ctx containerID of
                      FromErrCh err \<Rightarrow> (err, 0)
                    | FromStatusCh exitStatus \<Rightarrow>
                        (case Error_Message exitStatus of
                           Some msg \<Rightarrow> Some (New msg)
                         | None \<Rightarrow> None,
                         StatusCode exitStatus)) of
                (containerError, containerExitStatusCode) \<Rightarrow>
                  (WriteJobResults jobResultsDir stdoutPipe stderrPipe
                     (sint containerExitStatusCode)
                     (Combine [containerError, logsErr]), w2)))"

text \<open>Lines 262 to 275: start the container.\<close>

definition RunShard_start :: "env \<Rightarrow> ctx \<Rightarrow> string \<Rightarrow> string \<Rightarrow> world \<Rightarrow> run_result \<times> world" where
  "RunShard_start env ctx jobResultsDir containerID w =
     (let w1 = emit (Call_ContainerStart ctx containerID) w in
      case ContainerStart env ctx containerID of
        Some containerStartError \<Rightarrow>
          let internalContainerStartErrorMsg =
                (if Contains (Error containerStartError) ''executable file not found''
                 then ''Executable file not found'' else ''failed to start container'')
          in (FailResult (Wrap containerStartError internalContainerStartErrorMsg), w1)
      | None \<Rightarrow> RunShard_wait env ctx jobResultsDir containerID w1)"

text \<open>Lines 219 to 240: the resource limits and the host configuration.\<close>

definition deviceRequests :: "ResourceUsageData \<Rightarrow> DeviceRequest list" where
  "deviceRequests resourceRequirements =
     (if ResourceUsageData.GPU resourceRequirements > 0 then
        [] @ [\<lparr>DeviceIDs = [''0''], Capabilities = [[''gpu'']]\<rparr>]
      else [])"

definition hostConfig :: "env \<Rightarrow> Mount list \<Rightarrow> ResourceUsageData \<Rightarrow> HostConfig" where
  "hostConfig env mounts resourceRequirements =
     \<lparr>Mounts = mounts,
      Resources =
        \<lparr>Memory = ResourceUsageData.Memory resourceRequirements,
         NanoCPUs = f64_to_int64 (out_of_range_int64 env)
                      (f64_mul (ResourceUsageData.CPU resourceRequirements)
                         (f64_of_nat NanoCPUCoefficient)),
         DeviceRequests = deviceRequests resourceRequirements\<rparr>\<rparr>"

text \<open>Lines 186 to 260: pull the image, build the configurations, create the container.\<close>

definition RunShard_create ::
  "env \<Rightarrow> Executor \<Rightarrow> ctx \<Rightarrow> JobShard \<Rightarrow> string \<Rightarrow> Mount list \<Rightarrow> world \<Rightarrow> run_result \<times> world" where
  "RunShard_create env e ctx shard jobResultsDir mounts w =
     (let pull = (if Getenv env ''SKIP_IMAGE_PULL'' = []
                  then PullImage env ctx (JobSpecDocker.Image (Docker (Spec (Job shard))))
                  else None);
          w1 = (if Getenv env ''SKIP_IMAGE_PULL'' = []
                then emit (Call_PullImage ctx (JobSpecDocker.Image (Docker (Spec (Job shard))))) w
                else w)
      in case pull of
        Some err \<Rightarrow>
          (FailResult
             (Wrap err (''Could not pull image ''
                @ fmt_q env (JobSpecDocker.Image (Docker (Spec (Job shard))))
                @ '' - could be due to repo/image not existing,'' @ [CHR 0x0A]
                @ '' or registry needing authorization'')), w1)
      | None \<Rightarrow>
          (case JSONMarshalWithMax env (Spec (Job shard)) of
             Inl err \<Rightarrow> (FailResult err, w1)
           | Inr jsonJobSpec \<Rightarrow>
               let useEnv = EnvironmentVariables (Docker (Spec (Job shard)))
                              @ [''BACALHAU_JOB_SPEC='' @ jsonJobSpec];
                   containerConfig =
                     \<lparr>Image = JobSpecDocker.Image (Docker (Spec (Job shard))),
                      Tty = False,
                      Env = useEnv,
                      Entrypoint = JobSpecDocker.Entrypoint (Docker (Spec (Job shard))),
                      Labels = jobContainerLabels env e shard,
                      WorkingDir = WorkingDirectory (Docker (Spec (Job shard)))\<rparr>;
                   resourceRequirements =
                     ParseResourceUsageConfig env (Spec.Resources (Spec (Job shard)));
                   hostConfig = hostConfig env mounts resourceRequirements;
                   w2 = emit (Call_setupNetworkForJob ctx containerConfig hostConfig) w1
               in (case setupNetworkForJob env ctx shard containerConfig hostConfig of
                     Inl err \<Rightarrow> (FailResult err, w2)
                   | Inr (containerConfig, hostConfig) \<Rightarrow>
                       let w3 = emit (Call_ContainerCreate ctx containerConfig hostConfig
                                        (jobContainerName e shard)) w2
                       in (case ContainerCreate env ctx containerConfig hostConfig
                                  (jobContainerName e shard) of
                             Inl err \<Rightarrow>
                               (FailResult (Wrap err ''failed to create container''), w3)
                           | Inr jobContainer_ID \<Rightarrow>
                               let ctx = WithLogger ctx ''Container'' jobContainer_ID
                               in RunShard_start env ctx jobResultsDir jobContainer_ID w3))))"

text \<open>Lines 116 to 184: resolve the inputs and build the mounts.\<close>

definition RunShard_body ::
  "env \<Rightarrow> Executor \<Rightarrow> ctx \<Rightarrow> JobShard \<Rightarrow> string \<Rightarrow> world \<Rightarrow> run_result \<times> world" where
  "RunShard_body env e ctx shard jobResultsDir w =
     (case GetShardStorageSpec env ctx shard of
        Inl err \<Rightarrow> (FailResult err, w)
      | Inr shardStorageSpec \<Rightarrow>
          let inputStorageSpecs = [] @ Contexts (Spec (Job shard));
              inputStorageSpecs = inputStorageSpecs @ shardStorageSpec
          in (case ParallelPrepareStorage env ctx inputStorageSpecs of
                Inl err \<Rightarrow> (FailResult err, w)
              | Inr inputVolumes \<Rightarrow>
                  (case RunShard_inputs inputVolumes [] of
                     Inl err \<Rightarrow> (FailResult err, w)
                   | Inr mounts \<Rightarrow>
                       (case RunShard_outputs env jobResultsDir (Outputs (Spec (Job shard)))
                               mounts w of
                          (Inl err, w1) \<Rightarrow> (FailResult err, w1)
                        | (Inr mounts, w1) \<Rightarrow>
                            RunShard_create env e ctx shard jobResultsDir mounts w1))))"

text \<open>
  \<open>RunShard\<close> on a host with the directories \<open>fs\<close>: the context gets the tracing span, the
  body runs, and the deferred \<open>cleanupJob\<close> runs when the body has returned. The result
  comes with the world that the invocation leaves: the directories, and the calls it made.
\<close>

definition RunShard ::
  "env \<Rightarrow> Executor \<Rightarrow> ctx \<Rightarrow> JobShard \<Rightarrow> string \<Rightarrow> (string \<rightharpoonup> FileMode) \<Rightarrow> run_result \<times> world" where
  "RunShard env e ctx shard jobResultsDir fs =
     (let ctx = WithSpan ctx ''pkg/executor/docker.RunShard'' in
      case RunShard_body env e ctx shard jobResultsDir \<lparr>dirs = fs, calls = []\<rparr> of
        (result, w) \<Rightarrow> (result, cleanupJob env e ctx shard w))"

section \<open>Example inputs\<close>

text \<open>
  A shard with one input and one output, an executor, and collaborators that all succeed:
  the storage layer binds every input under \<open>/host\<close>, the resource requirements are half
  a CPU (the \<open>float64\<close> 0.5) and 128 MiB, the runtime creates container \<open>c1\<close>, which
  exits with status 137.
\<close>

definition example_shard :: JobShard where
  "example_shard =
     \<lparr>Job =
        \<lparr>Metadata = \<lparr>Metadata.ID = ''job1''\<rparr>,
         Spec =
           \<lparr>Docker = \<lparr>JobSpecDocker.Image = ''ubuntu'', JobSpecDocker.Entrypoint = [''ls''],
                       EnvironmentVariables = [''A=1''], WorkingDirectory = ''/''\<rparr>,
            Contexts = [\<lparr>Name = ''in'', Path = ''/data/in''\<rparr>],
            Outputs = [\<lparr>Name = ''out'', Path = ''/data/out''\<rparr>],
            Resources = \<lparr>ResourceUsageConfig.CPU = ''0.5'', ResourceUsageConfig.Memory = ''128Mb'',
                          ResourceUsageConfig.GPU = ''''\<rparr>\<rparr>\<rparr>,
      Index = 0\<rparr>"

definition example_env :: env where
  "example_env =
     \<lparr>ShouldKeepStack = False,
      Getenv = (\<lambda>name. []),
      shard_ID = (\<lambda>shard. Metadata.ID (Metadata (Job shard)) @ '':'' @ Sprint (Index shard)),
      fmt_plus_v = (\<lambda>spec. ''{Name:'' @ Name spec @ '' Path:'' @ Path spec @ ''}''),
      fmt_q = (\<lambda>s. [CHR 0x22] @ s @ [CHR 0x22]),
      filepath_Join = (\<lambda>dir name. dir @ ''/'' @ name),
      Mkdir_fails = (\<lambda>name. None),
      out_of_range_int64 = (\<lambda>x. - (2 ^ 63)),
      GetShardStorageSpec = (\<lambda>c shard. Inr []),
      ParallelPrepareStorage =
        (\<lambda>c specs. Inr (map (\<lambda>spec. (spec, \<lparr>StorageVolume.Type = ''bind'',
            StorageVolume.Source = ''/host/'' @ Name spec, StorageVolume.Target = Path spec\<rparr>)) specs)),
      PullImage = (\<lambda>c image. None),
      JSONMarshalWithMax = (\<lambda>spec. Inr ''{}''),
      ParseResourceUsageConfig =
        (\<lambda>config. \<lparr>ResourceUsageData.CPU = 0x3FE0000000000000,
                     ResourceUsageData.Memory = 134217728, ResourceUsageData.GPU = 0\<rparr>),
      setupNetworkForJob = (\<lambda>c shard containerConfig hostConfig. Inr (containerConfig, hostConfig)),
      ContainerCreate = (\<lambda>c containerConfig hostConfig name. Inr ''c1''),
      ContainerStart = (\<lambda>c containerID. None),
      FollowLogs = (\<lambda>c containerID. (Some ''out'', Some ''err'', None)),
      ContainerWait = (\<lambda>c containerID. FromStatusCh \<lparr>StatusCode = 137, Error_Message = None\<rparr>),
      RemoveObjectsWithLabel = (\<lambda>c key v. None)\<rparr>"

definition example_executor :: Executor where
  "example_executor = \<lparr>Executor.ID = ''node1''\<rparr>"

text \<open>The same shard with an output whose path in the container is that of the input.\<close>

definition example_shard_same_target :: JobShard where
  "example_shard_same_target =
     example_shard\<lparr>Job := (Job example_shard)\<lparr>Spec := (Spec (Job example_shard))
       \<lparr>Outputs := [\<lparr>Name = ''out'', Path = ''/data/in''\<rparr>]\<rparr>\<rparr>\<rparr>"


definition example_env_volume :: env where
  "example_env_volume =
     example_env\<lparr>ParallelPrepareStorage := \<lambda>c specs.
       Inr [(\<lparr>Name = ''in'', Path = ''/data/in''\<rparr>,
             \<lparr>StorageVolume.Type = ''bind'', StorageVolume.Source = ''/host/in'',
              StorageVolume.Target = ''/data/in''\<rparr>),
            (\<lparr>Name = ''db'', Path = ''/data/db''\<rparr>,
             \<lparr>StorageVolume.Type = ''volume'', StorageVolume.Source = ''db'',
              StorageVolume.Target = ''/data/db''\<rparr>)]\<rparr>"



text \<open>The example shard under another job ID and index.\<close>

definition shard_of_job :: "string \<Rightarrow> int \<Rightarrow> JobShard" where
  "shard_of_job jobID index =
     example_shard\<lparr>Job := (Job example_shard)\<lparr>Metadata := \<lparr>Metadata.ID = jobID\<rparr>\<rparr>,
                    Index := index\<rparr>"

text \<open>An error of the runtime for an entrypoint that is not in the image.\<close>

definition example_start_error :: go_error where
  "example_start_error =
     New ''OCI runtime create failed: exec: ls: executable file not found in $PATH''"

section \<open>Theorems\<close>

subsection \<open>The calls of each step\<close>

lemmas run_defs = RunShard_def RunShard_body_def RunShard_create_def RunShard_start_def RunShard_wait_def
  cleanupJob_def emit_def Mkdir_def Let_def example_env_def example_shard_def example_executor_def
  StorageVolumeConnectorBind_def Combine_def List.map_filter_simps

lemmas example_defs = example_env_def example_shard_def example_executor_def
  labelJobValue_def labelJobName_def labelExecutorName_def jobContainerLabels_def
  Sprint_def digits.simps Minute_def

lemma Mkdir_calls: "calls (snd (Mkdir env name perm w)) = calls w"
  by (simp add: Mkdir_def split: option.splits)

lemma RunShard_outputs_calls:
  "calls (snd (RunShard_outputs env d outs ms w)) = calls w"
proof (induction outs arbitrary: ms w)
  case Nil then show ?case by simp
next
  case (Cons a outs)
  show ?case
    using Cons.IH Mkdir_calls[of env "filepath_Join env d (Name a)" "OS_ALL_R OR OS_ALL_X OR OS_USER_W" w]
    by (auto simp: Let_def split: prod.splits option.splits)
qed

lemma RunShard_outputs_calls': "RunShard_outputs env d outs ms w = (r, w') \<Longrightarrow> calls w' = calls w"
  using RunShard_outputs_calls[of env d outs ms w] by simp

lemma Errors_Combine2: "Errors (Combine [a, b]) = Errors a @ Errors b"
  by (cases a; cases b) (auto simp: Combine_def List.map_filter_simps split: list.splits)

lemma Combine2_None: "Combine [a, b] = None \<longleftrightarrow> a = None \<and> b = None"
  by (cases a; cases b) (auto simp: Combine_def List.map_filter_simps split: list.splits)

lemma Combine2_right_None: "Combine [a, None] = a"
  by (cases a) (auto simp: Combine_def List.map_filter_simps split: list.splits)

lemma RunShard_wait_eq:
  "RunShard_wait env c d cid w =
     (WriteJobResults d (fst (FollowLogs env c cid)) (fst (snd (FollowLogs env c cid)))
       (case ContainerWait env c cid of FromErrCh err \<Rightarrow> 0
        | FromStatusCh exitStatus \<Rightarrow> sint (StatusCode exitStatus))
       (Combine [case ContainerWait env c cid of FromErrCh err \<Rightarrow> err
                 | FromStatusCh exitStatus \<Rightarrow> map_option New (Error_Message exitStatus),
                 snd (snd (FollowLogs env c cid))]),
      w\<lparr>calls := calls w @ [Call_FollowLogs c cid, Call_ContainerWait c cid]\<rparr>)"
  by (simp add: RunShard_wait_def emit_def Let_def
      split: prod.splits wait_outcome.splits option.splits)

lemma RunShard_start_eq:
  "RunShard_start env c d cid w =
     (case ContainerStart env c cid of
        Some err \<Rightarrow>
          (FailResult (Wrap err (if Contains (Error err) ''executable file not found''
              then ''Executable file not found'' else ''failed to start container'')),
           w\<lparr>calls := calls w @ [Call_ContainerStart c cid]\<rparr>)
      | None \<Rightarrow>
          (fst (RunShard_wait env c d cid w),
           w\<lparr>calls := calls w @ [Call_ContainerStart c cid, Call_FollowLogs c cid, Call_ContainerWait c cid]\<rparr>))"
  by (simp add: RunShard_start_def RunShard_wait_eq emit_def Let_def split: option.splits)

lemma RunShard_body_cases:
  assumes "RunShard_body env e c0 shard d w = (r, w')"
  shows "(calls w' = calls w \<and> (\<exists>err. r = FailResult err)) \<or>
         (\<exists>mounts w1. calls w1 = calls w \<and> RunShard_create env e c0 shard d mounts w1 = (r, w'))"
  using assms
  unfolding RunShard_body_def Let_def
  by (auto split: sum.splits prod.splits dest: RunShard_outputs_calls')

lemma cleanupJob_calls:
  "calls (cleanupJob env e c shard w) = calls w @
     (if ShouldKeepStack env then [] else
       [Call_RemoveObjectsWithLabel (WithTimeout Background (1 * Minute)) labelJobName (labelJobValue env e shard),
        Log_Msg c (if RemoveObjectsWithLabel env (WithTimeout Background (1 * Minute)) labelJobName (labelJobValue env e shard) = None then DebugLevel else ErrorLevel)
           (RemoveObjectsWithLabel env (WithTimeout Background (1 * Minute)) labelJobName (labelJobValue env e shard))
           ''Cleaned up job Docker resources''])"
  by (simp add: cleanupJob_def emit_def Let_def)

lemma cleanupJob_dirs: "dirs (cleanupJob env e c shard w) = dirs w"
  by (simp add: cleanupJob_def emit_def Let_def)

text \<open>Reaching the wait step.\<close>

lemma start_reach_wait:
  assumes "RunShard_start env c' d cid' w = (r, w')"
    and "Call_ContainerWait c cid \<in> set (calls w')"
    and "Call_ContainerWait c cid \<notin> set (calls w)"
  shows "r = fst (RunShard_wait env c d cid w0)"
  using assms by (auto simp: RunShard_start_eq RunShard_wait_eq split: option.splits)

lemma create_reach_wait:
  assumes "RunShard_create env e c0 shard d mounts w = (r, w')"
    and "Call_ContainerWait c cid \<in> set (calls w')"
    and "Call_ContainerWait c cid \<notin> set (calls w)"
  shows "r = fst (RunShard_wait env c d cid w0)"
  using assms
  unfolding RunShard_create_def Let_def
  by (auto simp: emit_def split: option.splits sum.splits prod.splits if_splits
      dest!: start_reach_wait[where c = c and cid = cid and ?w0.0 = w0])

lemma RunShard_reach_wait:
  assumes "Call_ContainerWait c cid \<in> set (calls (snd (RunShard env e ctx shard d fs)))"
  shows "fst (RunShard env e ctx shard d fs) = fst (RunShard_wait env c d cid w0)"
proof -
  obtain r w' where b: "RunShard_body env e (WithSpan ctx ''pkg/executor/docker.RunShard'') shard d \<lparr>dirs = fs, calls = []\<rparr> = (r, w')"
    by (cases "RunShard_body env e (WithSpan ctx ''pkg/executor/docker.RunShard'') shard d \<lparr>dirs = fs, calls = []\<rparr>")
  from assms b have "Call_ContainerWait c cid \<in> set (calls w')"
    by (auto simp: RunShard_def Let_def cleanupJob_calls split: if_splits)
  with RunShard_body_cases[OF b] have "r = fst (RunShard_wait env c d cid w0)"
    by (auto dest: create_reach_wait[where ?w0.0 = w0])
  with b show ?thesis by (simp add: RunShard_def Let_def)
qed

subsection \<open>The wait step\<close>

text \<open>
  Claim C1. When an invocation reaches the wait step (the call of \<open>ContainerWait\<close> is
  among its calls), the result is written by \<open>WriteJobResults\<close> and its error argument
  is \<open>multierr.Combine\<close> of the container error and the error of \<open>FollowLogs\<close>, where
  the container error is what the error channel delivered, or else the message of the
  exit status, if it has one. The combined error stands for the errors of both (none
  is dropped) and is \<open>nil\<close> only if both are. An exit status 137 without message, with
  logs followed, gives exit code 137 and no error; an error of the wait channel gives
  exit code 0 and that error, combined with the log error.
\<close>

theorem RunShard_combined_error:
  fixes env :: env and c :: ctx and containerID :: string
  defines "logsErr \<equiv> snd (snd (FollowLogs env c containerID))"
  defines "containerError \<equiv>
    (case ContainerWait env c containerID of
       FromErrCh err \<Rightarrow> err
     | FromStatusCh exitStatus \<Rightarrow> map_option New (Error_Message exitStatus))"
  assumes reach:
    "Call_ContainerWait c containerID
       \<in> set (calls (snd (RunShard env e ctx shard jobResultsDir fs)))"
  shows
    "(\<exists>stdoutPipe stderrPipe code.
        fst (RunShard env e ctx shard jobResultsDir fs) =
          WriteJobResults jobResultsDir stdoutPipe stderrPipe code
            (Combine [containerError, logsErr])) \<and>
     Errors (combinedError (fst (RunShard env e ctx shard jobResultsDir fs))) =
       Errors containerError @ Errors logsErr \<and>
     (combinedError (fst (RunShard env e ctx shard jobResultsDir fs)) = None \<longleftrightarrow>
        containerError = None \<and> logsErr = None) \<and>
     (ContainerWait env c containerID =
        FromStatusCh \<lparr>StatusCode = 137, Error_Message = None\<rparr> \<and> logsErr = None \<longrightarrow>
        exitCode (fst (RunShard env e ctx shard jobResultsDir fs)) = 137 \<and>
        combinedError (fst (RunShard env e ctx shard jobResultsDir fs)) = None) \<and>
     (\<forall>err. ContainerWait env c containerID = FromErrCh (Some err) \<longrightarrow>
        exitCode (fst (RunShard env e ctx shard jobResultsDir fs)) = 0 \<and>
        combinedError (fst (RunShard env e ctx shard jobResultsDir fs)) =
          Combine [Some err, logsErr] \<and>
        (logsErr = None \<longrightarrow>
           combinedError (fst (RunShard env e ctx shard jobResultsDir fs)) = Some err))"
proof -
  have r: "fst (RunShard env e ctx shard jobResultsDir fs) =
      WriteJobResults jobResultsDir (fst (FollowLogs env c containerID))
        (fst (snd (FollowLogs env c containerID)))
        (case ContainerWait env c containerID of FromErrCh err \<Rightarrow> 0
         | FromStatusCh exitStatus \<Rightarrow> sint (StatusCode exitStatus))
        (Combine [containerError, logsErr])"
    using RunShard_reach_wait[OF reach, of undefined]
    by (simp add: RunShard_wait_eq containerError_def logsErr_def)
  show ?thesis
    unfolding r
    by (auto simp: Errors_Combine2 Combine2_None Combine2_right_None containerError_def)
qed

theorem RunShard_combined_error_witness:
  "Call_ContainerWait
     (WithLogger (WithSpan (Caller 0) ''pkg/executor/docker.RunShard'') ''Container'' ''c1'') ''c1''
     \<in> set (calls (snd (RunShard example_env example_executor (Caller 0) example_shard
                          ''/results'' Map.empty))) \<and>
   exitCode (fst (RunShard example_env example_executor (Caller 0) example_shard
                    ''/results'' Map.empty)) = 137 \<and>
   combinedError (fst (RunShard example_env example_executor (Caller 0) example_shard
                         ''/results'' Map.empty)) = None"
proof -
  have reach: "Call_ContainerWait
     (WithLogger (WithSpan (Caller 0) ''pkg/executor/docker.RunShard'') ''Container'' ''c1'') ''c1''
     \<in> set (calls (snd (RunShard example_env example_executor (Caller 0) example_shard
                          ''/results'' Map.empty)))"
    by (simp add: run_defs)
  show ?thesis
    using reach RunShard_combined_error[OF reach]
    by (simp add: example_env_def)
qed


subsection \<open>Building the mounts\<close>

text \<open>The two loops, and the step that receives the mounts.\<close>

lemma Mkdir_None_iff:
  "Mkdir env name perm w = (None, w1) \<longleftrightarrow>
     dirs w name = None \<and> Mkdir_fails env name = None \<and> w1 = w\<lparr>dirs := (dirs w)(name \<mapsto> perm)\<rparr>"
  by (auto simp: Mkdir_def split: option.splits)


lemma RunShard_inputs_Inr:
  "RunShard_inputs vols ms = Inr ms' \<Longrightarrow>
     ms' = ms @ map (\<lambda>(spec, volumeMount).
                  \<lparr>Type = TypeBind, ReadOnly = True, Source = StorageVolume.Source volumeMount,
                   Target = StorageVolume.Target volumeMount\<rparr>) vols \<and>
     (\<forall>(spec, volumeMount) \<in> set vols. StorageVolume.Type volumeMount = StorageVolumeConnectorBind)"
  by (induction vols ms rule: RunShard_inputs.induct) (auto split: if_splits)

lemma RunShard_inputs_all_bind:
  "\<forall>(spec, volumeMount) \<in> set vols. StorageVolume.Type volumeMount = StorageVolumeConnectorBind \<Longrightarrow>
   RunShard_inputs vols ms =
     Inr (ms @ map (\<lambda>(spec, volumeMount).
                  \<lparr>Type = TypeBind, ReadOnly = True, Source = StorageVolume.Source volumeMount,
                   Target = StorageVolume.Target volumeMount\<rparr>) vols)"
  by (induction vols ms rule: RunShard_inputs.induct) auto

lemma RunShard_inputs_Inl:
  "RunShard_inputs vols ms = Inl err \<Longrightarrow>
     \<exists>before spec volumeMount after.
       vols = before @ (spec, volumeMount) # after \<and>
       (\<forall>(spec, volumeMount) \<in> set before. StorageVolume.Type volumeMount = StorageVolumeConnectorBind) \<and>
       StorageVolume.Type volumeMount \<noteq> StorageVolumeConnectorBind \<and>
       err = New (''unknown storage volume type: '' @ StorageVolume.Type volumeMount)"
proof (induction vols ms rule: RunShard_inputs.induct)
  case (1 mounts)
  then show ?case by simp
next
  case (2 spec volumeMount rest mounts)
  show ?case
  proof (cases "StorageVolume.Type volumeMount = StorageVolumeConnectorBind")
    case True
    with 2 obtain before spec' volumeMount' after where
      h: "rest = before @ (spec', volumeMount') # after"
      "\<forall>(spec, volumeMount) \<in> set before. StorageVolume.Type volumeMount = StorageVolumeConnectorBind"
      "StorageVolume.Type volumeMount' \<noteq> StorageVolumeConnectorBind"
      "err = New (''unknown storage volume type: '' @ StorageVolume.Type volumeMount')"
      by auto
    show ?thesis
      apply (rule exI[of _ "(spec, volumeMount) # before"])
      apply (rule exI[of _ spec'], rule exI[of _ volumeMount'], rule exI[of _ after])
      using h True by simp
  next
    case False
    with 2 show ?thesis
      by (intro exI[of _ "[]"] exI[of _ spec] exI[of _ volumeMount] exI[of _ rest]) simp
  qed
qed

lemma RunShard_inputs_not_all_bind:
  assumes "\<exists>(spec, volumeMount) \<in> set vols. StorageVolume.Type volumeMount \<noteq> StorageVolumeConnectorBind"
  shows "\<exists>err. RunShard_inputs vols ms = Inl err"
proof (cases "RunShard_inputs vols ms")
  case (Inl a)
  then show ?thesis by simp
next
  case (Inr b)
  from RunShard_inputs_Inr[OF this] assms show ?thesis by auto
qed

lemma RunShard_outputs_Inr:
  "RunShard_outputs env d outs ms w = (Inr ms', w') \<Longrightarrow>
     ms' = ms @ map (\<lambda>output. \<lparr>Type = TypeBind, ReadOnly = False,
                                Source = filepath_Join env d (Name output),
                                Target = Path output\<rparr>) outs \<and>
     (\<forall>output \<in> set outs. Name output \<noteq> [] \<and> Path output \<noteq> [] \<and>
        dirs w (filepath_Join env d (Name output)) = None \<and>
        dirs w' (filepath_Join env d (Name output)) = Some (OS_ALL_R OR OS_ALL_X OR OS_USER_W)) \<and>
     (\<forall>p. p \<notin> (\<lambda>output. filepath_Join env d (Name output)) ` set outs \<longrightarrow> dirs w' p = dirs w p)"
proof (induction outs arbitrary: ms w)
  case Nil
  then show ?case by simp
next
  case (Cons out rest)
  let ?srcd = "filepath_Join env d (Name out)"
  let ?perm = "OS_ALL_R OR OS_ALL_X OR OS_USER_W"
  let ?m = "\<lparr>Type = TypeBind, ReadOnly = False, Source = ?srcd, Target = Path out\<rparr>"
  from Cons.prems have valid: "Name out \<noteq> []" "Path out \<noteq> []"
    by (auto split: if_splits)
  with Cons.prems obtain w1 where
    mk: "Mkdir env ?srcd ?perm w = (None, w1)"
    and rest: "RunShard_outputs env d rest (ms @ [?m]) w1 = (Inr ms', w')"
    by (auto simp: Let_def split: prod.splits option.splits)
  from mk have w1: "dirs w ?srcd = None" "w1 = w\<lparr>dirs := (dirs w)(?srcd \<mapsto> ?perm)\<rparr>"
    by (simp_all add: Mkdir_None_iff)
  note IH = Cons.IH[OF rest]
  have notin: "?srcd \<notin> (\<lambda>out. filepath_Join env d (Name out)) ` set rest"
    using IH w1 by auto
  with IH have here: "dirs w' ?srcd = Some ?perm"
    using w1 by simp
  show ?case
    using IH valid w1 here notin
    by (auto split: if_splits)
qed


lemma RunShard_body_stages:
  assumes "RunShard_body env e c0 shard d w = (r, w')"
  shows "(calls w' = calls w \<and> (\<exists>err. r = FailResult err)) \<or>
         (\<exists>shardStorageSpec inputVolumes inputMounts mounts w1.
            GetShardStorageSpec env c0 shard = Inr shardStorageSpec \<and>
            ParallelPrepareStorage env c0 (Contexts (Spec (Job shard)) @ shardStorageSpec) =
              Inr inputVolumes \<and>
            RunShard_inputs inputVolumes [] = Inr inputMounts \<and>
            RunShard_outputs env d (Outputs (Spec (Job shard))) inputMounts w = (Inr mounts, w1) \<and>
            RunShard_create env e c0 shard d mounts w1 = (r, w'))"
  using assms
  unfolding RunShard_body_def Let_def
  by (auto split: sum.splits prod.splits dest: RunShard_outputs_calls')

lemma create_reach_setup:
  assumes "RunShard_create env e c0 shard d mounts w = (r, w')"
    and "Call_setupNetworkForJob c containerConfig hostCfg \<in> set (calls w')"
    and "Call_setupNetworkForJob c containerConfig hostCfg \<notin> set (calls w)"
  shows "c = c0 \<and> hostCfg = hostConfig env mounts
           (ParseResourceUsageConfig env (Spec.Resources (Spec (Job shard)))) \<and>
         dirs w' = dirs w"
  using assms
  unfolding RunShard_create_def Let_def
  by (auto simp: emit_def RunShard_start_eq split: option.splits sum.splits prod.splits if_splits)

lemma RunShard_reach_setup:
  assumes "Call_setupNetworkForJob c containerConfig hostCfg
             \<in> set (calls (snd (RunShard env e ctx shard d fs)))"
  shows "\<exists>shardStorageSpec inputVolumes inputMounts mounts w1.
            c = WithSpan ctx ''pkg/executor/docker.RunShard'' \<and>
            GetShardStorageSpec env c shard = Inr shardStorageSpec \<and>
            ParallelPrepareStorage env c (Contexts (Spec (Job shard)) @ shardStorageSpec) =
              Inr inputVolumes \<and>
            RunShard_inputs inputVolumes [] = Inr inputMounts \<and>
            RunShard_outputs env d (Outputs (Spec (Job shard))) inputMounts
              \<lparr>dirs = fs, calls = []\<rparr> = (Inr mounts, w1) \<and>
            hostCfg = hostConfig env mounts
              (ParseResourceUsageConfig env (Spec.Resources (Spec (Job shard)))) \<and>
            dirs (snd (RunShard env e ctx shard d fs)) = dirs w1"
proof -
  let ?c1 = "WithSpan ctx ''pkg/executor/docker.RunShard''"
  obtain r w' where b: "RunShard_body env e ?c1 shard d \<lparr>dirs = fs, calls = []\<rparr> = (r, w')"
    by (cases "RunShard_body env e ?c1 shard d \<lparr>dirs = fs, calls = []\<rparr>")
  then have run: "RunShard env e ctx shard d fs = (r, cleanupJob env e ?c1 shard w')"
    by (simp add: RunShard_def Let_def)
  from assms have ev: "Call_setupNetworkForJob c containerConfig hostCfg \<in> set (calls w')"
    by (auto simp: run cleanupJob_calls split: if_splits)
  from RunShard_body_stages[OF b] ev obtain shardStorageSpec inputVolumes inputMounts mounts w1 where
    st: "GetShardStorageSpec env ?c1 shard = Inr shardStorageSpec"
      "ParallelPrepareStorage env ?c1 (Contexts (Spec (Job shard)) @ shardStorageSpec) = Inr inputVolumes"
      "RunShard_inputs inputVolumes [] = Inr inputMounts"
      "RunShard_outputs env d (Outputs (Spec (Job shard))) inputMounts \<lparr>dirs = fs, calls = []\<rparr> = (Inr mounts, w1)"
      "RunShard_create env e ?c1 shard d mounts w1 = (r, w')"
    by auto
  from RunShard_outputs_calls'[OF st(4)] have "calls w1 = []" by simp
  with create_reach_setup[OF st(5) ev] have
    "c = ?c1 \<and> hostCfg = hostConfig env mounts
           (ParseResourceUsageConfig env (Spec.Resources (Spec (Job shard)))) \<and> dirs w' = dirs w1"
    by simp
  with st show ?thesis
    by (auto simp: run cleanupJob_dirs)
qed

text \<open>
  Claim C9. The mount list that \<open>RunShard\<close> puts into the host configuration is the list
  of the read-only mounts of the input volumes, in the order in which the volumes are
  visited, followed by the read-write mounts of the outputs, in the order in which the
  job declares them. Nothing is removed or merged: the targets of the mounts are the
  targets of all volumes followed by the paths of all outputs, duplicates included.
\<close>

theorem RunShard_mount_order:
  assumes built:
    "Call_setupNetworkForJob c containerConfig hostCfg
       \<in> set (calls (snd (RunShard env e ctx shard jobResultsDir fs)))"
  shows
    "\<exists>shardStorageSpec inputVolumes.
       GetShardStorageSpec env c shard = Inr shardStorageSpec \<and>
       ParallelPrepareStorage env c (Contexts (Spec (Job shard)) @ shardStorageSpec) =
         Inr inputVolumes \<and>
       Mounts hostCfg =
         map (\<lambda>(spec, volumeMount).
                \<lparr>Type = TypeBind, ReadOnly = True, Source = StorageVolume.Source volumeMount,
                 Target = StorageVolume.Target volumeMount\<rparr>) inputVolumes
         @ map (\<lambda>output.
                \<lparr>Type = TypeBind, ReadOnly = False,
                 Source = filepath_Join env jobResultsDir (Name output),
                 Target = Path output\<rparr>) (Outputs (Spec (Job shard))) \<and>
       map Mount.Target (Mounts hostCfg) =
         map (\<lambda>(spec, volumeMount). StorageVolume.Target volumeMount) inputVolumes
         @ map Path (Outputs (Spec (Job shard)))"
proof -
  from RunShard_reach_setup[OF built] obtain shardStorageSpec inputVolumes inputMounts mounts w1 where
    st: "GetShardStorageSpec env c shard = Inr shardStorageSpec"
      "ParallelPrepareStorage env c (Contexts (Spec (Job shard)) @ shardStorageSpec) = Inr inputVolumes"
      "RunShard_inputs inputVolumes [] = Inr inputMounts"
      "RunShard_outputs env jobResultsDir (Outputs (Spec (Job shard))) inputMounts
         \<lparr>dirs = fs, calls = []\<rparr> = (Inr mounts, w1)"
      "hostCfg = hostConfig env mounts
         (ParseResourceUsageConfig env (Spec.Resources (Spec (Job shard))))"
    by blast
  from RunShard_inputs_Inr[OF st(3)] RunShard_outputs_Inr[OF st(4)] st(5)
  have "Mounts hostCfg =
         map (\<lambda>(spec, volumeMount).
                \<lparr>Type = TypeBind, ReadOnly = True, Source = StorageVolume.Source volumeMount,
                 Target = StorageVolume.Target volumeMount\<rparr>) inputVolumes
         @ map (\<lambda>output.
                \<lparr>Type = TypeBind, ReadOnly = False,
                 Source = filepath_Join env jobResultsDir (Name output),
                 Target = Path output\<rparr>) (Outputs (Spec (Job shard)))"
    by (simp add: hostConfig_def)
  with st(1,2) show ?thesis
    by (intro exI[of _ shardStorageSpec] exI[of _ inputVolumes]) (simp add: comp_def case_prod_unfold)
qed

theorem RunShard_mount_order_witness:
  "\<exists>c containerConfig hostCfg.
     Call_setupNetworkForJob c containerConfig hostCfg
       \<in> set (calls (snd (RunShard example_env example_executor (Caller 0)
                            example_shard_same_target ''/results'' Map.empty))) \<and>
     Mounts hostCfg =
       [\<lparr>Type = TypeBind, ReadOnly = True, Source = ''/host/in'', Target = ''/data/in''\<rparr>,
        \<lparr>Type = TypeBind, ReadOnly = False, Source = ''/results/out'', Target = ''/data/in''\<rparr>]"
proof -
  let ?c = "WithSpan (Caller 0) ''pkg/executor/docker.RunShard''"
  let ?cc = "\<lparr>Image = ''ubuntu'', Tty = False, Env = [''A=1'', ''BACALHAU_JOB_SPEC={}''],
              Entrypoint = [''ls''],
              Labels = [(''bacalhau-executor'', ''node1''), (''bacalhau-jobID'', ''node1job1:0'')],
              WorkingDir = ''/''\<rparr>"
  let ?hc = "hostConfig example_env
              [\<lparr>Type = TypeBind, ReadOnly = True, Source = ''/host/in'', Target = ''/data/in''\<rparr>,
               \<lparr>Type = TypeBind, ReadOnly = False, Source = ''/results/out'', Target = ''/data/in''\<rparr>]
              \<lparr>ResourceUsageData.CPU = 0x3FE0000000000000,
               ResourceUsageData.Memory = 134217728, ResourceUsageData.GPU = 0\<rparr>"
  have built: "Call_setupNetworkForJob ?c ?cc ?hc
       \<in> set (calls (snd (RunShard example_env example_executor (Caller 0)
                            example_shard_same_target ''/results'' Map.empty)))"
    by (simp add: run_defs example_shard_same_target_def jobContainerLabels_def
        labelJobValue_def labelExecutorName_def labelJobName_def Sprint_def digits.simps)
  from RunShard_mount_order[OF built]
  have "Mounts ?hc =
       [\<lparr>Type = TypeBind, ReadOnly = True, Source = ''/host/in'', Target = ''/data/in''\<rparr>,
        \<lparr>Type = TypeBind, ReadOnly = False, Source = ''/results/out'', Target = ''/data/in''\<rparr>]"
    by (auto simp: example_env_def example_shard_same_target_def example_shard_def)
  with built show ?thesis by blast
qed



lemma RunShard_fails_early:
  assumes "RunShard_body env e (WithSpan ctx ''pkg/executor/docker.RunShard'') shard d
             \<lparr>dirs = fs, calls = []\<rparr> = (FailResult err, w)"
    and "calls w = []"
  shows "RunShard env e ctx shard d fs =
           (FailResult err, cleanupJob env e (WithSpan ctx ''pkg/executor/docker.RunShard'') shard w)"
    and "Call_setupNetworkForJob c containerConfig hostCfg
           \<notin> set (calls (snd (RunShard env e ctx shard d fs)))"
    and "Call_ContainerCreate c containerConfig hostCfg name
           \<notin> set (calls (snd (RunShard env e ctx shard d fs)))"
    and "dirs (snd (RunShard env e ctx shard d fs)) = dirs w"
  using assms by (auto simp: RunShard_def cleanupJob_calls cleanupJob_dirs)

text \<open>
  Claim C5. Let the storage layer resolve the inputs of the shard to \<open>inputVolumes\<close>. If
  all of them are of kind \<open>bind\<close>, the loop over the inputs produces, for each volume in
  turn, a read-only bind mount with the volume's source and target, and these mounts are
  the first entries of the mount list of the host configuration. If some volume is of
  another kind, \<open>RunShard\<close> fails with the error \<open>unknown storage volume type\<close> for the
  first such volume; it then leaves the directories as they were and makes no call to the
  runtime but the removal of the cleanup: no network is set up, no container is created.
\<close>

theorem RunShard_input_volumes:
  fixes env :: env and ctx :: ctx
  defines "c1 \<equiv> WithSpan ctx ''pkg/executor/docker.RunShard''"
  assumes spec: "GetShardStorageSpec env c1 shard = Inr shardStorageSpec"
    and prep: "ParallelPrepareStorage env c1 (Contexts (Spec (Job shard)) @ shardStorageSpec) =
                 Inr inputVolumes"
  shows
    "((\<forall>(spec, volumeMount) \<in> set inputVolumes. StorageVolume.Type volumeMount = ''bind'') \<longrightarrow>
        RunShard_inputs inputVolumes [] =
          Inr (map (\<lambda>(spec, volumeMount).
                 \<lparr>Type = TypeBind, ReadOnly = True, Source = StorageVolume.Source volumeMount,
                  Target = StorageVolume.Target volumeMount\<rparr>) inputVolumes) \<and>
        (\<forall>c containerConfig hostCfg.
           Call_setupNetworkForJob c containerConfig hostCfg
             \<in> set (calls (snd (RunShard env e ctx shard jobResultsDir fs))) \<longrightarrow>
           take (length inputVolumes) (Mounts hostCfg) =
             map (\<lambda>(spec, volumeMount).
                 \<lparr>Type = TypeBind, ReadOnly = True, Source = StorageVolume.Source volumeMount,
                  Target = StorageVolume.Target volumeMount\<rparr>) inputVolumes)) \<and>
     ((\<exists>(spec, volumeMount) \<in> set inputVolumes. StorageVolume.Type volumeMount \<noteq> ''bind'') \<longrightarrow>
        (\<exists>before spec volumeMount after.
           inputVolumes = before @ (spec, volumeMount) # after \<and>
           (\<forall>(spec, volumeMount) \<in> set before. StorageVolume.Type volumeMount = ''bind'') \<and>
           StorageVolume.Type volumeMount \<noteq> ''bind'' \<and>
           RunShard env e ctx shard jobResultsDir fs =
             (FailResult (New (''unknown storage volume type: '' @ StorageVolume.Type volumeMount)),
              cleanupJob env e c1 shard \<lparr>dirs = fs, calls = []\<rparr>)) \<and>
        dirs (snd (RunShard env e ctx shard jobResultsDir fs)) = fs \<and>
        (\<forall>c containerConfig hostCfg name.
           Call_setupNetworkForJob c containerConfig hostCfg
             \<notin> set (calls (snd (RunShard env e ctx shard jobResultsDir fs))) \<and>
           Call_ContainerCreate c containerConfig hostCfg name
             \<notin> set (calls (snd (RunShard env e ctx shard jobResultsDir fs)))))"
proof (intro conjI impI)
  assume all: "\<forall>(spec, volumeMount) \<in> set inputVolumes. StorageVolume.Type volumeMount = ''bind''"
  then show ok: "RunShard_inputs inputVolumes [] =
          Inr (map (\<lambda>(spec, volumeMount).
                 \<lparr>Type = TypeBind, ReadOnly = True, Source = StorageVolume.Source volumeMount,
                  Target = StorageVolume.Target volumeMount\<rparr>) inputVolumes)"
    using RunShard_inputs_all_bind[of inputVolumes "[]"]
    by (simp add: StorageVolumeConnectorBind_def)
  show "\<forall>c containerConfig hostCfg.
           Call_setupNetworkForJob c containerConfig hostCfg
             \<in> set (calls (snd (RunShard env e ctx shard jobResultsDir fs))) \<longrightarrow>
           take (length inputVolumes) (Mounts hostCfg) =
             map (\<lambda>(spec, volumeMount).
                 \<lparr>Type = TypeBind, ReadOnly = True, Source = StorageVolume.Source volumeMount,
                  Target = StorageVolume.Target volumeMount\<rparr>) inputVolumes"
  proof (intro allI impI)
    fix c containerConfig hostCfg
    assume "Call_setupNetworkForJob c containerConfig hostCfg
             \<in> set (calls (snd (RunShard env e ctx shard jobResultsDir fs)))"
    from RunShard_reach_setup[OF this] spec prep ok
    obtain mounts w1 where
      "RunShard_outputs env jobResultsDir (Outputs (Spec (Job shard)))
         (map (\<lambda>(spec, volumeMount).
                 \<lparr>Type = TypeBind, ReadOnly = True, Source = StorageVolume.Source volumeMount,
                  Target = StorageVolume.Target volumeMount\<rparr>) inputVolumes)
         \<lparr>dirs = fs, calls = []\<rparr> = (Inr mounts, w1)"
      "hostCfg = hostConfig env mounts
         (ParseResourceUsageConfig env (Spec.Resources (Spec (Job shard))))"
      by (auto simp: c1_def)
    from RunShard_outputs_Inr[OF this(1)] this(2)
    show "take (length inputVolumes) (Mounts hostCfg) =
             map (\<lambda>(spec, volumeMount).
                 \<lparr>Type = TypeBind, ReadOnly = True, Source = StorageVolume.Source volumeMount,
                  Target = StorageVolume.Target volumeMount\<rparr>) inputVolumes"
      by (simp add: hostConfig_def)
  qed
next
  assume some: "\<exists>(spec, volumeMount) \<in> set inputVolumes. StorageVolume.Type volumeMount \<noteq> ''bind''"
  then obtain err where err: "RunShard_inputs inputVolumes [] = Inl err"
    using RunShard_inputs_not_all_bind[of inputVolumes "[]"]
    by (auto simp: StorageVolumeConnectorBind_def)
  with spec prep have body: "RunShard_body env e (WithSpan ctx ''pkg/executor/docker.RunShard'') shard
      jobResultsDir \<lparr>dirs = fs, calls = []\<rparr> = (FailResult err, \<lparr>dirs = fs, calls = []\<rparr>)"
    by (simp add: RunShard_body_def c1_def)
  note early = RunShard_fails_early[OF body, simplified]
  from RunShard_inputs_Inl[OF err] early(1)
  show "\<exists>before spec volumeMount after.
           inputVolumes = before @ (spec, volumeMount) # after \<and>
           (\<forall>(spec, volumeMount) \<in> set before. StorageVolume.Type volumeMount = ''bind'') \<and>
           StorageVolume.Type volumeMount \<noteq> ''bind'' \<and>
           RunShard env e ctx shard jobResultsDir fs =
             (FailResult (New (''unknown storage volume type: '' @ StorageVolume.Type volumeMount)),
              cleanupJob env e c1 shard \<lparr>dirs = fs, calls = []\<rparr>)"
    unfolding c1_def StorageVolumeConnectorBind_def by blast
  from early(4) show "dirs (snd (RunShard env e ctx shard jobResultsDir fs)) = fs"
    by simp
  from early(2,3) show "\<forall>c containerConfig hostCfg name.
           Call_setupNetworkForJob c containerConfig hostCfg
             \<notin> set (calls (snd (RunShard env e ctx shard jobResultsDir fs))) \<and>
           Call_ContainerCreate c containerConfig hostCfg name
             \<notin> set (calls (snd (RunShard env e ctx shard jobResultsDir fs)))"
    by blast
qed


theorem RunShard_input_volumes_witness:
  "fst (RunShard example_env_volume example_executor (Caller 0) example_shard ''/results''
          Map.empty) = FailResult (New ''unknown storage volume type: volume'') \<and>
   dirs (snd (RunShard example_env_volume example_executor (Caller 0) example_shard ''/results''
          Map.empty)) = Map.empty \<and>
   calls (snd (RunShard example_env_volume example_executor (Caller 0) example_shard ''/results''
          Map.empty)) =
     [Call_RemoveObjectsWithLabel (WithTimeout Background 60000000000) ''bacalhau-jobID''
        ''node1job1:0'',
      Log_Msg (WithSpan (Caller 0) ''pkg/executor/docker.RunShard'') DebugLevel None
        ''Cleaned up job Docker resources''] \<and>
   RunShard_inputs
     [(\<lparr>Name = ''in'', Path = ''/data/in''\<rparr>,
       \<lparr>StorageVolume.Type = ''bind'', StorageVolume.Source = ''/host/in'',
        StorageVolume.Target = ''/data/in''\<rparr>)] [] =
     Inr [\<lparr>Type = TypeBind, ReadOnly = True, Source = ''/host/in'', Target = ''/data/in''\<rparr>]"
proof -
  let ?c1 = "WithSpan (Caller 0) ''pkg/executor/docker.RunShard''"
  have spec: "GetShardStorageSpec example_env_volume ?c1 example_shard = Inr []"
    by (simp add: example_env_volume_def example_env_def)
  have prep: "ParallelPrepareStorage example_env_volume ?c1
      (Contexts (Spec (Job example_shard)) @ []) =
       Inr [(\<lparr>Name = ''in'', Path = ''/data/in''\<rparr>,
             \<lparr>StorageVolume.Type = ''bind'', StorageVolume.Source = ''/host/in'',
              StorageVolume.Target = ''/data/in''\<rparr>),
            (\<lparr>Name = ''db'', Path = ''/data/db''\<rparr>,
             \<lparr>StorageVolume.Type = ''volume'', StorageVolume.Source = ''db'',
              StorageVolume.Target = ''/data/db''\<rparr>)]"
    by (simp add: example_env_volume_def example_env_def)
  have spec': "GetShardStorageSpec example_env ?c1 example_shard = Inr []"
    by (simp add: example_env_def)
  have prep': "ParallelPrepareStorage example_env ?c1
      (Contexts (Spec (Job example_shard)) @ []) =
       Inr [(\<lparr>Name = ''in'', Path = ''/data/in''\<rparr>,
             \<lparr>StorageVolume.Type = ''bind'', StorageVolume.Source = ''/host/in'',
              StorageVolume.Target = ''/data/in''\<rparr>)]"
    by (simp add: example_shard_def example_env_def)
  show ?thesis
    using RunShard_input_volumes[OF spec prep, of example_executor "''/results''" Map.empty]
      RunShard_input_volumes[OF spec' prep', of example_executor "''/results''" Map.empty]
    by (simp add: run_defs example_env_volume_def example_defs)
qed




text \<open>
  A name that is one ordinary element (no separator, neither \<open>.\<close> nor \<open>..\<close>) is joined
  to a cleaned directory by a separator; \<open>Join\<close> applies to the name no other check.
\<close>

lemma Join_examples:
  "Join [''/results'', ''out''] = ''/results/out'' \<and> Clean ''a//b/./c/../../d/'' = ''a/d'' \<and>
   Clean ''../../a/..'' = ''../..'' \<and> Clean ''/../a'' = ''/a'' \<and> Clean ''a/..'' = ''.'' \<and>
   Join ['''', ''a/''] = ''a'' \<and> Join ['''', ''''] = ''''"
  by (simp add: Clean_def)










subsection \<open>Resource limits\<close>

text \<open>
  The length in bits of a number, the fields of a \<open>float64\<close> built from its parts, and
  the two facts about the arithmetic that the limits rest on: the conversion to \<open>int64\<close>
  truncates, and a product that is an integer below \<open>2 ^ 53\<close> is computed exactly.
\<close>

lemma bit_length_0: "bit_length 0 = 0"
  by (simp add: bit_length.simps)

lemma bit_length_1: "bit_length 1 = 1"
  by (simp add: bit_length.simps)

lemma bit_length_Bit0: "bit_length (numeral (Num.Bit0 n)) = Suc (bit_length (numeral n))"
  by (subst bit_length.simps) simp

lemma bit_length_Bit1: "bit_length (numeral (Num.Bit1 n)) = Suc (bit_length (numeral n))"
  by (subst bit_length.simps) simp

lemma bit_length_Suc_0: "bit_length (Suc 0) = 1"
  by (simp add: bit_length.simps)

lemmas bit_length_numeral = bit_length_0 bit_length_1 bit_length_Suc_0 bit_length_Bit0 bit_length_Bit1


lemma coefficient_bits: "f64_of_nat NanoCPUCoefficient = 0x41CDCD6500000000"
  by (simp add: f64_of_nat_def NanoCPUCoefficient_def f64_round_def bit_length_numeral f64_make_def)

lemma example_float_fields:
  "f64_exp 0x41CDCD6500000000 = 1052" "f64_frac 0x41CDCD6500000000 = 3885008372629504"
  "\<not> f64_sign 0x41CDCD6500000000"
  "f64_exp 0x3FF004189374BC6A = 1023" "f64_frac 0x3FF004189374BC6A = 4503599627370"
  "\<not> f64_sign 0x3FF004189374BC6A"
  by (simp_all add: f64_exp_def f64_frac_def f64_sign_def)

lemma example_float_product: "f64_mul 0x3FF004189374BC6A (f64_of_nat NanoCPUCoefficient) = 0x41CDD5061FFFFFFF"
  by (simp add: coefficient_bits f64_mul_def f64_is_nan_def f64_is_inf_def f64_is_zero_def example_float_fields
    f64_mant_def f64_expo_def f64_round_def bit_length_numeral round_nearest_even_def f64_make_def)

lemma example_float_exact: "f64_val 0x3FF004189374BC6A * 1000000000 = 4402444557615103515625 / 4398046511104"
  by (simp add: f64_val_def f64_mant_def f64_expo_def example_float_fields power_int_minus)

lemma example_product_fields:
  "f64_exp 0x41CDD5061FFFFFFF = 1052" "f64_frac 0x41CDD5061FFFFFFF = 3893396980629503"
  "\<not> f64_sign 0x41CDD5061FFFFFFF"
  by (simp_all add: f64_exp_def f64_frac_def f64_sign_def)

lemma example_float_quota: "sint (f64_to_int64 oor (f64_mul 0x3FF004189374BC6A (f64_of_nat NanoCPUCoefficient))) = 1000999999"
  by (simp add: example_float_product f64_to_int64_def f64_is_finite_def example_product_fields f64_mant_def f64_expo_def)

lemma bit_length_less: "n < 2 ^ bit_length n"
proof (induction n rule: bit_length.induct)
  case (1 n)
  show ?case
  proof (cases "n = 0")
    case True
    then show ?thesis by (simp add: bit_length_0)
  next
    case False
    from 1[OF False] have "n div 2 < 2 ^ bit_length (n div 2)" .
    then have "n < 2 * 2 ^ bit_length (n div 2)" by linarith
    with False show ?thesis by (subst bit_length.simps) simp
  qed
qed

lemma bit_length_ge: "0 < n \<Longrightarrow> 2 ^ (bit_length n - 1) \<le> n"
proof (induction n rule: bit_length.induct)
  case (1 n)
  then have n: "n \<noteq> 0" by simp
  show ?case
  proof (cases "n div 2 = 0")
    case True
    with n have "n = 1" by linarith
    then show ?thesis by (simp add: bit_length_numeral)
  next
    case False
    with 1(1)[OF n] have "2 ^ (bit_length (n div 2) - 1) \<le> n div 2" by simp
    moreover have "bit_length (n div 2) > 0" using False by (subst bit_length.simps) simp
    ultimately have "2 ^ bit_length (n div 2) \<le> 2 * (n div 2)"
      by (metis Suc_pred' mult_le_mono2 power_Suc)
    then have "2 ^ bit_length (n div 2) \<le> n" by linarith
    with n show ?thesis by (subst bit_length.simps) simp
  qed
qed

lemma bit_length_eqI:
  assumes "2 ^ k \<le> n" "n < 2 ^ Suc k"
  shows "bit_length n = Suc k"
proof -
  from assms have pos: "0 < n" by (metis less_le_trans zero_less_numeral zero_less_power)
  have "\<not> bit_length n \<le> k"
  proof
    assume "bit_length n \<le> k"
    then have "(2::nat) ^ bit_length n \<le> 2 ^ k" by (simp add: power_increasing)
    with bit_length_less[of n] assms(1) show False by linarith
  qed
  moreover have "\<not> bit_length n > Suc k"
  proof
    assume "bit_length n > Suc k"
    then have "(2::nat) ^ Suc k \<le> 2 ^ (bit_length n - 1)" by (intro power_increasing) simp_all
    with bit_length_ge[OF pos] assms(2) show False by linarith
  qed
  ultimately show ?thesis by linarith
qed

lemma bit_length_pos: "0 < n \<Longrightarrow> 0 < bit_length n"
  by (subst bit_length.simps) simp

lemma bit_length_shift:
  assumes "0 < n"
  shows "bit_length (n * 2 ^ k) = bit_length n + k"
proof -
  obtain j where j: "bit_length n = Suc j"
    using bit_length_pos[OF assms] by (cases "bit_length n") simp_all
  have "2 ^ j \<le> n" using bit_length_ge[OF assms] j by simp
  then have lo: "2 ^ (j + k) \<le> n * 2 ^ k" by (simp add: power_add)
  have "n < 2 ^ Suc j" using bit_length_less[of n] j by simp
  then have "n * 2 ^ k < 2 ^ Suc j * 2 ^ k" by simp
  then have hi: "n * 2 ^ k < 2 ^ Suc (j + k)" by (simp add: power_add)
  from bit_length_eqI[OF lo hi] j show ?thesis by simp
qed

lemma bit_length_le_iff: "bit_length n \<le> k \<longleftrightarrow> n < 2 ^ k"
proof
  assume "bit_length n \<le> k"
  then have "(2::nat) ^ bit_length n \<le> 2 ^ k" by (simp add: power_increasing)
  with bit_length_less[of n] show "n < 2 ^ k" by linarith
next
  assume lt: "n < 2 ^ k"
  show "bit_length n \<le> k"
  proof (cases "n = 0")
    case True
    then show ?thesis by (simp add: bit_length_0)
  next
    case False
    then have "2 ^ (bit_length n - 1) \<le> n" by (intro bit_length_ge) simp
    with lt have "(2::nat) ^ (bit_length n - 1) < 2 ^ k" by linarith
    then have "bit_length n - 1 < k" by (simp add: power_strict_increasing_iff)
    then show ?thesis by linarith
  qed
qed

lemma f64_make_fields:
  assumes "e < 2048" "f < 2 ^ 52"
  shows "f64_exp (f64_make s e f) = e" "f64_frac (f64_make s e f) = f"
    "f64_sign (f64_make s e f) = s"
proof -
  let ?x = "(if s then 2 ^ 63 else 0) + e * 2 ^ 52 + f :: nat"
  have "e * 2 ^ 52 + f < Suc e * 2 ^ 52" using assms(2) by simp
  also have "\<dots> \<le> 2048 * 2 ^ 52" using assms(1) by (intro mult_le_mono1) simp
  finally have small: "e * 2 ^ 52 + f < 2 ^ 63" by simp
  then have lt: "?x < 2 ^ 64" by simp
  have "unat (word_of_nat ?x :: 64 word) = ?x mod 2 ^ LENGTH(64)"
    by (rule unat_of_nat)
  with lt have u: "unat (f64_make s e f) = ?x"
    unfolding f64_make_def by simp
  have d1: "(e * 2 ^ 52 + f) div 2 ^ 52 = e" using assms(2) by simp
  have m1: "(e * 2 ^ 52 + f) mod 2 ^ 52 = f" using assms(2) by simp
  have d2: "(2 ^ 63 + (e * 2 ^ 52 + f)) div 2 ^ 52 = 2048 + e"
  proof -
    have "(2 ^ 63 + (e * 2 ^ 52 + f)) = (2048 + e) * 2 ^ 52 + f" by simp
    then show ?thesis using assms(2) by (metis div_mult_self3 div_less add.right_neutral zero_neq_numeral power_not_zero)
  qed
  have m2: "(2 ^ 63 + (e * 2 ^ 52 + f)) mod 2 ^ 52 = f"
  proof -
    have "(2 ^ 63 + (e * 2 ^ 52 + f)) = (2048 + e) * 2 ^ 52 + f" by simp
    then show ?thesis using assms(2) by (metis mod_mult_self3 mod_less)
  qed
  show "f64_exp (f64_make s e f) = e"
    unfolding f64_exp_def u using d1 d2 assms(1) by (cases s) (simp_all add: add.assoc)
  show "f64_frac (f64_make s e f) = f"
    unfolding f64_frac_def u using m1 m2 by (cases s) (simp_all add: add.assoc)
  show "f64_sign (f64_make s e f) = s"
    unfolding f64_sign_def u using small by (cases s) (simp_all add: add.assoc)
qed

lemma powi_eq_nat_iff:
  "(of_nat M * 2 powi E = (of_nat n :: rat)) \<longleftrightarrow>
     (if 0 \<le> E then M * 2 ^ nat E = n else M = n * 2 ^ nat (- E))"
proof (cases "0 \<le> E")
  case True
  then have "(2::rat) powi E = of_nat (2 ^ nat E)" by (simp add: power_int_def)
  then have "(of_nat M * 2 powi E = (of_nat n :: rat)) \<longleftrightarrow> (of_nat (M * 2 ^ nat E) = (of_nat n :: rat))"
    by simp
  with True show ?thesis by (simp only: of_nat_eq_iff if_True)
next
  case False
  then have "(2::rat) powi E = 1 / of_nat (2 ^ nat (- E))" by (simp add: power_int_def field_simps)
  then have "of_nat M * 2 powi E = (of_nat M :: rat) / of_nat (2 ^ nat (- E))" by simp
  moreover have "(of_nat (2 ^ nat (- E)) :: rat) \<noteq> 0" by simp
  then have "((of_nat M :: rat) / of_nat (2 ^ nat (- E)) = of_nat n) =
      (of_nat M = (of_nat n :: rat) * of_nat (2 ^ nat (- E)))"
    by (rule nonzero_divide_eq_eq)
  ultimately have "(of_nat M * 2 powi E = (of_nat n :: rat)) \<longleftrightarrow>
      (of_nat M = (of_nat n :: rat) * of_nat (2 ^ nat (- E)))"
    by (simp only:)
  then have "(of_nat M * 2 powi E = (of_nat n :: rat)) \<longleftrightarrow> (of_nat M = (of_nat (n * 2 ^ nat (- E)) :: rat))"
    by (simp only: of_nat_mult)
  with False show ?thesis by (simp only: of_nat_eq_iff if_False)
qed

lemma round_nearest_even_exact: "round_nearest_even (q * 2 ^ k) k = q"
  by (simp add: round_nearest_even_def Let_def)

lemma f64_round_exact:
  assumes pos: "0 < n" and small: "n < 2 ^ 53"
    and eq: "of_nat M * 2 powi E = (of_nat n :: rat)"
  shows "f64_round sg M E =
           f64_make sg (bit_length n + 1022) (n * 2 ^ (53 - bit_length n) - 2 ^ 52)"
    and "2 ^ 52 \<le> n * 2 ^ (53 - bit_length n)"
    and "n * 2 ^ (53 - bit_length n) < 2 ^ 53"
proof -
  define bn where "bn = bit_length n"
  define s where "s = 53 - bn"
  have bn: "0 < bn" "bn \<le> 53"
    using bit_length_pos[OF pos] small by (simp_all add: bn_def bit_length_le_iff)
  then have s: "bn + s = 53" by (simp add: s_def)
  have Mpos: "0 < M"
  proof (rule ccontr)
    assume "\<not> 0 < M"
    with eq pos show False by simp
  qed
  have rel: "if 0 \<le> E then M * 2 ^ nat E = n else M = n * 2 ^ nat (- E)"
    using eq by (simp only: powi_eq_nat_iff)
  have len: "E + int (bit_length M) = int bn"
  proof (cases "0 \<le> E")
    case True
    with rel have "n = M * 2 ^ nat E" by simp
    then have "bn = bit_length M + nat E"
      using bit_length_shift[OF Mpos, of "nat E"] by (simp add: bn_def)
    with True show ?thesis by simp
  next
    case False
    with rel have "M = n * 2 ^ nat (- E)" by simp
    then have "bit_length M = bn + nat (- E)"
      using bit_length_shift[OF pos, of "nat (- E)"] by (simp add: bn_def)
    with False show ?thesis by simp
  qed
  define e1 where "e1 = max (E + int (bit_length M) - 53) (- 1074)"
  have e1: "e1 = - int s"
    using len s bn by (simp add: e1_def)
  define m1 where "m1 = (if e1 \<le> E then M * 2 ^ nat (E - e1) else round_nearest_even M (nat (e1 - E)))"
  have m1: "m1 = n * 2 ^ s"
  proof (cases "e1 \<le> E")
    case le: True
    show ?thesis
    proof (cases "0 \<le> E")
      case True
      with rel have n: "n = M * 2 ^ nat E" by simp
      from True e1 have "nat (E - e1) = nat E + s" by simp
      with le show ?thesis by (simp add: m1_def n power_add)
    next
      case False
      with rel have M: "M = n * 2 ^ nat (- E)" by simp
      from False le e1 have k: "nat (- E) \<le> s" "nat (E - e1) = s - nat (- E)" by simp_all
      have "M * 2 ^ nat (E - e1) = n * (2 ^ nat (- E) * 2 ^ (s - nat (- E)))"
        by (simp add: M k(2))
      also have "\<dots> = n * 2 ^ s"
        using k(1) by (simp add: power_add[symmetric])
      finally show ?thesis using le by (simp add: m1_def)
    qed
  next
    case gt: False
    with e1 have neg: "\<not> 0 \<le> E" by simp
    with rel have M: "M = n * 2 ^ nat (- E)" by simp
    from gt e1 neg have k: "s \<le> nat (- E)" "nat (e1 - E) = nat (- E) - s" by simp_all
    have "M = n * (2 ^ s * 2 ^ (nat (- E) - s))"
      using k(1) by (simp add: M power_add[symmetric])
    then have "M = (n * 2 ^ s) * 2 ^ nat (e1 - E)"
      by (simp add: k(2))
    then have "round_nearest_even M (nat (e1 - E)) = n * 2 ^ s"
      by (simp only: round_nearest_even_exact)
    with gt show ?thesis by (simp add: m1_def)
  qed
  obtain j where j: "bn = Suc j" using bn(1) by (cases bn) simp_all
  have "2 ^ j \<le> n" using bit_length_ge[OF pos] j by (simp add: bn_def)
  then have "2 ^ j * 2 ^ s \<le> n * 2 ^ s" by simp
  moreover have "j + s = 52" using s j by simp
  ultimately have lo: "2 ^ 52 \<le> n * 2 ^ s" by (simp add: power_add[symmetric])
  have "n < 2 ^ bn" using bit_length_less[of n] by (simp add: bn_def)
  then have "n * 2 ^ s < 2 ^ bn * 2 ^ s" by simp
  then have hi: "n * 2 ^ s < 2 ^ 53" using s by (simp add: power_add[symmetric])
  have expn: "nat (e1 + 1075) = bn + 1022"
    using e1 s by simp
  have "f64_round sg M E =
      (let m2 = (if m1 = 2 ^ 53 then 2 ^ 52 else m1);
           e2 = (if m1 = 2 ^ 53 then e1 + 1 else e1)
       in if e2 > 971 then f64_make sg 2047 0
          else if m2 < 2 ^ 52 then f64_make sg 0 m2
          else f64_make sg (nat (e2 + 1075)) (m2 - 2 ^ 52))"
    using Mpos unfolding f64_round_def e1_def m1_def Let_def by simp
  also have "\<dots> = f64_make sg (bn + 1022) (n * 2 ^ s - 2 ^ 52)"
    using lo hi e1 expn by (simp add: m1 Let_def)
  finally show "f64_round sg M E =
           f64_make sg (bit_length n + 1022) (n * 2 ^ (53 - bit_length n) - 2 ^ 52)"
    by (simp add: bn_def s_def)
  from lo show "2 ^ 52 \<le> n * 2 ^ (53 - bit_length n)" by (simp add: s_def bn_def)
  from hi show "n * 2 ^ (53 - bit_length n) < 2 ^ 53" by (simp add: s_def bn_def)
qed

lemma sint_word_of_int_64:
  assumes "- (2 ^ 63) \<le> k" "k < 2 ^ 63"
  shows "sint (word_of_int k :: 64 word) = k"
  using assms by (simp add: sint_sbintrunc' signed_take_bit_int_eq_self)

lemma f64_val_nonneg:
  "\<not> f64_sign x \<Longrightarrow> f64_val x = of_nat (f64_mant x) * 2 powi f64_expo x"
  by (simp add: f64_val_def)

lemma f64_to_int64_floor:
  assumes fin: "f64_is_finite x" and sg: "\<not> f64_sign x" and lt: "f64_val x < 2 ^ 63"
  shows "sint (f64_to_int64 out_of_range x) = \<lfloor>f64_val x\<rfloor>"
proof -
  define t where "t = (if 0 \<le> f64_expo x then int (f64_mant x) * 2 ^ nat (f64_expo x)
                       else int (f64_mant x) div 2 ^ nat (- f64_expo x))"
  have val: "f64_val x = of_nat (f64_mant x) * 2 powi f64_expo x"
    using sg by (simp add: f64_val_nonneg)
  have fl: "\<lfloor>f64_val x\<rfloor> = t"
  proof (cases "0 \<le> f64_expo x")
    case True
    then have "f64_val x = of_int (int (f64_mant x) * 2 ^ nat (f64_expo x))"
      by (simp add: val power_int_def)
    then have "\<lfloor>f64_val x\<rfloor> = int (f64_mant x) * 2 ^ nat (f64_expo x)"
      by (simp only: floor_of_int)
    with True show ?thesis by (simp add: t_def)
  next
    case False
    then have "f64_val x = of_nat (f64_mant x) / of_nat (2 ^ nat (- f64_expo x))"
      by (simp add: val power_int_def field_simps)
    then have "\<lfloor>f64_val x\<rfloor> = int (f64_mant x div 2 ^ nat (- f64_expo x))"
      by (simp only: floor_divide_of_nat_eq)
    with False show ?thesis by (simp add: t_def zdiv_int)
  qed
  have t0: "0 \<le> t" by (simp add: t_def pos_imp_zdiv_nonneg_iff)
  have t1: "t < 2 ^ 63"
  proof -
    have "of_int t \<le> f64_val x" using fl of_int_floor_le[of "f64_val x"] by simp
    with lt have "(of_int t :: rat) < of_int (2 ^ 63)" by simp
    then show ?thesis by (simp only: of_int_less_iff)
  qed
  from t0 t1 have "sint (word_of_int t :: 64 word) = t"
    by (intro sint_word_of_int_64) simp_all
  moreover have "f64_to_int64 out_of_range x =
      (if - (2 ^ 63) \<le> (if f64_sign x then - t else t) \<and> (if f64_sign x then - t else t) < 2 ^ 63
       then word_of_int (if f64_sign x then - t else t) else out_of_range x)"
    using fin unfolding f64_to_int64_def Let_def t_def by simp
  then have "f64_to_int64 out_of_range x = word_of_int t"
    using sg t0 t1 by simp
  ultimately show ?thesis using fl by simp
qed

lemma f64_round_exact_fields:
  assumes pos: "0 < n" and small: "n < 2 ^ 53"
    and eq: "of_nat M * 2 powi E = (of_nat n :: rat)"
  shows "f64_is_finite (f64_round sg M E)"
    and "f64_sign (f64_round sg M E) = sg"
    and "f64_val (f64_round False M E) = of_nat n"
proof -
  define s where "s = 53 - bit_length n"
  define f where "f = n * 2 ^ s - 2 ^ 52"
  note r = f64_round_exact[OF pos small eq, folded s_def]
  have bn: "0 < bit_length n" "bit_length n \<le> 53"
    using bit_length_pos[OF pos] small by (simp_all add: bit_length_le_iff)
  have e: "bit_length n + 1022 < 2048" using bn by simp
  have f: "f < 2 ^ 52" using r(2,3) by (simp add: f_def)
  have round: "\<And>sg. f64_round sg M E = f64_make sg (bit_length n + 1022) f"
    using f64_round_exact(1)[OF pos small eq] by (simp add: f_def s_def)
  note fields = f64_make_fields[OF e f]
  show "f64_is_finite (f64_round sg M E)"
    using bn by (simp add: round f64_is_finite_def fields)
  show "f64_sign (f64_round sg M E) = sg"
    by (simp add: round fields)
  have "2 ^ 52 + f = n * 2 ^ s" using r(2) by (simp add: f_def)
  then have mant: "f64_mant (f64_round False M E) = n * 2 ^ s"
    using bn by (simp add: round f64_mant_def fields)
  have expo: "f64_expo (f64_round False M E) = - int s"
    using bn by (simp add: round f64_expo_def fields s_def)
  have "\<not> f64_sign (f64_round False M E)"
    by (simp add: round fields)
  from f64_val_nonneg[OF this]
  have "f64_val (f64_round False M E) = of_nat (n * 2 ^ s) * 2 powi (- int s)"
    by (simp only: mant expo)
  also have "\<dots> = of_nat n * ((2::rat) ^ s * 2 powi (- int s))"
    by simp
  also have "(2::rat) ^ s * 2 powi (- int s) = 1"
    by (simp add: power_int_minus)
  finally show "f64_val (f64_round False M E) = of_nat n" by simp
qed

lemma f64_round_zero:
  "f64_is_finite (f64_round sg 0 E)" "f64_sign (f64_round sg 0 E) = sg"
  "f64_val (f64_round sg 0 E) = 0"
proof -
  have r: "f64_round sg 0 E = f64_make sg 0 0" by (simp add: f64_round_def)
  have fields: "f64_exp (f64_make sg 0 0) = 0" "f64_frac (f64_make sg 0 0) = 0"
    "f64_sign (f64_make sg 0 0) = sg"
    using f64_make_fields[of 0 0 sg] by simp_all
  show "f64_is_finite (f64_round sg 0 E)" by (simp add: r f64_is_finite_def fields)
  show "f64_sign (f64_round sg 0 E) = sg" by (simp add: r fields)
  show "f64_val (f64_round sg 0 E) = 0" by (simp add: r f64_val_def f64_mant_def fields)
qed

lemma coefficient_fields:
  "f64_exp (f64_of_nat NanoCPUCoefficient) = 1052"
  "f64_frac (f64_of_nat NanoCPUCoefficient) = 3885008372629504"
  "\<not> f64_sign (f64_of_nat NanoCPUCoefficient)"
  by (simp_all add: coefficient_bits example_float_fields)

lemma f64_mul_coefficient:
  assumes "f64_is_finite x" "\<not> f64_sign x"
  shows "f64_mul x (f64_of_nat NanoCPUCoefficient) =
           f64_round False (f64_mant x * 8388608000000000) (f64_expo x - 23)"
  using assms
  by (simp add: f64_mul_def f64_is_nan_def f64_is_inf_def f64_is_finite_def coefficient_fields
      f64_mant_def[of "f64_of_nat NanoCPUCoefficient"] f64_expo_def[of "f64_of_nat NanoCPUCoefficient"])

lemma cpu_quota_exact:
  assumes fin: "f64_is_finite x" and sg: "\<not> f64_sign x"
    and eq: "f64_val x * 1000000000 = of_nat n" and small: "n < 2 ^ 53"
  shows "f64_val (f64_mul x (f64_of_nat NanoCPUCoefficient)) = of_nat n"
    and "sint (f64_to_int64 out_of_range (f64_mul x (f64_of_nat NanoCPUCoefficient))) = int n"
proof -
  define M where "M = f64_mant x * 8388608000000000"
  define E where "E = f64_expo x - 23"
  have mul: "f64_mul x (f64_of_nat NanoCPUCoefficient) = f64_round False M E"
    using f64_mul_coefficient[OF fin sg] by (simp add: M_def E_def)
  have "(2::rat) powi (f64_expo x - 23) = 2 powi f64_expo x * 2 powi (- 23)"
    by (simp add: power_int_diff power_int_minus field_simps)
  then have "of_nat M * 2 powi E = f64_val x * (8388608000000000 * 2 powi (- 23) :: rat)"
    using sg by (simp add: M_def E_def f64_val_nonneg)
  also have "(8388608000000000 * 2 powi (- 23) :: rat) = 1000000000"
    by (simp add: power_int_minus)
  finally have ME: "of_nat M * 2 powi E = (of_nat n :: rat)" using eq by simp
  have props: "f64_is_finite (f64_round False M E) \<and> \<not> f64_sign (f64_round False M E) \<and>
      f64_val (f64_round False M E) = of_nat n"
  proof (cases "n = 0")
    case True
    with ME have "M = 0" by simp
    with True show ?thesis by (simp add: f64_round_zero)
  next
    case False
    then have "0 < n" by simp
    from f64_round_exact_fields[OF this small ME] show ?thesis by simp
  qed
  then show v: "f64_val (f64_mul x (f64_of_nat NanoCPUCoefficient)) = of_nat n"
    by (simp add: mul)
  have "(of_nat n :: rat) < 2 ^ 63"
  proof -
    have "n < 2 ^ 63" using small by (rule less_trans) simp
    then have "(of_nat n :: rat) < of_nat (2 ^ 63)" by (simp only: of_nat_less_iff)
    then show ?thesis by simp
  qed
  with props have "sint (f64_to_int64 out_of_range (f64_round False M E)) = \<lfloor>f64_val (f64_round False M E)\<rfloor>"
    by (intro f64_to_int64_floor) simp_all
  with props show "sint (f64_to_int64 out_of_range (f64_mul x (f64_of_nat NanoCPUCoefficient))) = int n"
    by (simp add: mul)
qed


lemma sint_eq_unat_iff:
  fixes w :: "64 word"
  shows "sint w = int (unat w) \<longleftrightarrow> unat w < 2 ^ 63"
proof -
  have "sint w = signed_take_bit 63 (uint w)"
    by (simp add: sint_uint)
  moreover have "signed_take_bit 63 (uint w) = uint w \<longleftrightarrow> - (2 ^ 63) \<le> uint w \<and> uint w < 2 ^ 63"
    by (rule signed_take_bit_int_eq_self_iff)
  moreover have "0 \<le> uint w" by simp
  moreover have "uint w = int (unat w)" by simp
  ultimately show ?thesis by (simp del: of_nat_unat)
qed

lemma example_half_fields:
  "f64_exp 0x3FE0000000000000 = 1022" "f64_frac 0x3FE0000000000000 = 0"
  "\<not> f64_sign 0x3FE0000000000000"
  by (simp_all add: f64_exp_def f64_frac_def f64_sign_def)

lemma example_half_exact: "f64_val 0x3FE0000000000000 * 1000000000 = of_nat 500000000"
  by (simp add: f64_val_def f64_mant_def f64_expo_def example_half_fields power_int_minus)

lemma example_large_fields:
  "f64_exp 0x4202A05F20000000 = 1056" "f64_frac 0x4202A05F20000000 = 739280372629504"
  "\<not> f64_sign 0x4202A05F20000000"
  "f64_exp 0x43E158E460913D00 = 1086" "f64_frac 0x43E158E460913D00 = 379212872629504"
  "\<not> f64_sign 0x43E158E460913D00"
  by (simp_all add: f64_exp_def f64_frac_def f64_sign_def)

lemma example_large_product:
  "f64_mul 0x4202A05F20000000 (f64_of_nat NanoCPUCoefficient) = 0x43E158E460913D00"
  by (simp add: coefficient_bits f64_mul_def f64_is_nan_def f64_is_inf_def f64_is_zero_def
      example_float_fields example_large_fields f64_mant_def f64_expo_def f64_round_def
      bit_length_numeral round_nearest_even_def f64_make_def)

lemma example_large_exact: "f64_val 0x4202A05F20000000 * 1000000000 = 10000000000000000000"
  by (simp add: f64_val_def f64_mant_def f64_expo_def example_large_fields power_int_minus)

text \<open>
  Claim C2, as the code has it. The host configuration that \<open>RunShard\<close> builds carries:
  as CPU quota the conversion to \<open>int64\<close> of the \<open>float64\<close> product of the CPU
  fraction and \<open>10 ^ 9\<close>, which for a finite product between 0 and \<open>2 ^ 63\<close> is the
  product truncated, and which is the CPU fraction times \<open>10 ^ 9\<close> exactly whenever the
  fraction is finite, not negative and that number is an integer below \<open>2 ^ 53\<close>; as
  memory limit the 64 bits of the memory requirement, which as an \<open>int64\<close> is the same
  number exactly when the requirement is below \<open>2 ^ 63\<close>; and one device request when
  the GPU count is positive, none otherwise.
\<close>

theorem RunShard_resource_limits:
  fixes env :: env and hostCfg :: HostConfig and shard :: JobShard
  defines "resourceRequirements \<equiv> ParseResourceUsageConfig env (Spec.Resources (Spec (Job shard)))"
  defines "product \<equiv>
    f64_mul (ResourceUsageData.CPU resourceRequirements) (f64_of_nat NanoCPUCoefficient)"
  assumes built:
    "Call_setupNetworkForJob c containerConfig hostCfg
       \<in> set (calls (snd (RunShard env e ctx shard jobResultsDir fs)))"
  shows
    "NanoCPUs (Resources hostCfg) = f64_to_int64 (out_of_range_int64 env) product \<and>
     (f64_is_finite product \<and> \<not> f64_sign product \<and> f64_val product < 2 ^ 63 \<longrightarrow>
        sint (NanoCPUs (Resources hostCfg)) = \<lfloor>f64_val product\<rfloor>) \<and>
     (\<forall>n. f64_is_finite (ResourceUsageData.CPU resourceRequirements) \<and>
          \<not> f64_sign (ResourceUsageData.CPU resourceRequirements) \<and>
          f64_val (ResourceUsageData.CPU resourceRequirements) * 1000000000 = of_nat n \<and>
          n < 2 ^ 53 \<longrightarrow>
          f64_val product = of_nat n \<and> sint (NanoCPUs (Resources hostCfg)) = int n) \<and>
     Resources.Memory (Resources hostCfg) = ResourceUsageData.Memory resourceRequirements \<and>
     (sint (Resources.Memory (Resources hostCfg)) =
        int (unat (ResourceUsageData.Memory resourceRequirements)) \<longleftrightarrow>
        unat (ResourceUsageData.Memory resourceRequirements) < 2 ^ 63) \<and>
     (DeviceRequests (Resources hostCfg) \<noteq> [] \<longleftrightarrow>
        0 < unat (ResourceUsageData.GPU resourceRequirements)) \<and>
     length (DeviceRequests (Resources hostCfg)) \<le> 1"
proof -
  from RunShard_reach_setup[OF built] obtain mounts where
    hc: "hostCfg = hostConfig env mounts resourceRequirements"
    unfolding resourceRequirements_def by blast
  have cpu: "NanoCPUs (Resources hostCfg) = f64_to_int64 (out_of_range_int64 env) product"
    by (simp add: hc hostConfig_def product_def)
  have mem: "Resources.Memory (Resources hostCfg) = ResourceUsageData.Memory resourceRequirements"
    by (simp add: hc hostConfig_def)
  have gpu: "DeviceRequests (Resources hostCfg) = deviceRequests resourceRequirements"
    by (simp add: hc hostConfig_def)
  have trunc: "f64_is_finite product \<and> \<not> f64_sign product \<and> f64_val product < 2 ^ 63 \<longrightarrow>
        sint (NanoCPUs (Resources hostCfg)) = \<lfloor>f64_val product\<rfloor>"
    unfolding cpu by (auto intro: f64_to_int64_floor)
  have exact: "\<forall>n. f64_is_finite (ResourceUsageData.CPU resourceRequirements) \<and>
          \<not> f64_sign (ResourceUsageData.CPU resourceRequirements) \<and>
          f64_val (ResourceUsageData.CPU resourceRequirements) * 1000000000 = of_nat n \<and>
          n < 2 ^ 53 \<longrightarrow>
          f64_val product = of_nat n \<and> sint (NanoCPUs (Resources hostCfg)) = int n"
    unfolding cpu product_def by (auto intro: cpu_quota_exact)
  have g1: "DeviceRequests (Resources hostCfg) \<noteq> [] \<longleftrightarrow>
        0 < unat (ResourceUsageData.GPU resourceRequirements)"
    by (simp add: gpu deviceRequests_def word_greater_zero_iff unat_gt_0)
  have g2: "length (DeviceRequests (Resources hostCfg)) \<le> 1"
    by (simp add: gpu deviceRequests_def)
  show ?thesis
    using cpu trunc exact mem g1 g2 by (simp only: sint_eq_unat_iff simp_thms)
qed

theorem RunShard_resource_limits_witness:
  "\<exists>c containerConfig hostCfg.
     Call_setupNetworkForJob c containerConfig hostCfg
       \<in> set (calls (snd (RunShard example_env example_executor (Caller 0)
                            example_shard ''/results'' Map.empty))) \<and>
     sint (NanoCPUs (Resources hostCfg)) = 500000000 \<and>
     sint (Resources.Memory (Resources hostCfg)) = 134217728 \<and>
     DeviceRequests (Resources hostCfg) = []"
proof -
  let ?c = "WithSpan (Caller 0) ''pkg/executor/docker.RunShard''"
  let ?cc = "\<lparr>Image = ''ubuntu'', Tty = False, Env = [''A=1'', ''BACALHAU_JOB_SPEC={}''],
              Entrypoint = [''ls''],
              Labels = [(''bacalhau-executor'', ''node1''), (''bacalhau-jobID'', ''node1job1:0'')],
              WorkingDir = ''/''\<rparr>"
  let ?hc = "hostConfig example_env
              [\<lparr>Type = TypeBind, ReadOnly = True, Source = ''/host/in'', Target = ''/data/in''\<rparr>,
               \<lparr>Type = TypeBind, ReadOnly = False, Source = ''/results/out'', Target = ''/data/out''\<rparr>]
              \<lparr>ResourceUsageData.CPU = 0x3FE0000000000000,
               ResourceUsageData.Memory = 134217728, ResourceUsageData.GPU = 0\<rparr>"
  have built: "Call_setupNetworkForJob ?c ?cc ?hc
       \<in> set (calls (snd (RunShard example_env example_executor (Caller 0)
                            example_shard ''/results'' Map.empty)))"
    by (simp add: run_defs example_defs)
  have parsed: "ParseResourceUsageConfig example_env (Spec.Resources (Spec (Job example_shard))) =
      \<lparr>ResourceUsageData.CPU = 0x3FE0000000000000,
       ResourceUsageData.Memory = 134217728, ResourceUsageData.GPU = 0\<rparr>"
    by (simp add: example_env_def)
  have half: "f64_is_finite 0x3FE0000000000000" "\<not> f64_sign 0x3FE0000000000000"
    "f64_val 0x3FE0000000000000 * 1000000000 = of_nat 500000000" "(500000000::nat) < 2 ^ 53"
    by (simp_all add: f64_is_finite_def example_half_fields example_half_exact)
  note t = RunShard_resource_limits[OF built, unfolded parsed, simplified]
  from t half have cpu: "sint (NanoCPUs (Resources ?hc)) = 500000000"
    by auto
  from t have mem: "sint (Resources.Memory (Resources ?hc)) = 134217728"
    by simp
  from t have gpu: "DeviceRequests (Resources ?hc) = []"
    by simp
  from built cpu mem gpu show ?thesis by blast
qed

text \<open>
  Where the claim of exactness fails: a memory requirement of \<open>2 ^ 63\<close> bytes becomes the
  limit \<open>- 2 ^ 63\<close>; the CPU fraction 1.001 (the \<open>float64\<close> \<open>0x3FF004189374BC6A\<close>)
  gives the quota 1000999999, below its product with \<open>10 ^ 9\<close>; and the CPU fraction
  \<open>10 ^ 10\<close> gives the product \<open>10 ^ 19\<close>, which no \<open>int64\<close> holds, so that the quota is
  what the platform makes of it (here \<open>- 2 ^ 63\<close>).
\<close>

theorem resource_limits_not_exact:
  "unat (ResourceUsageData.Memory
           \<lparr>ResourceUsageData.CPU = 0, ResourceUsageData.Memory = 9223372036854775808,
            ResourceUsageData.GPU = 0\<rparr>) = 9223372036854775808 \<and>
   sint (Resources.Memory (Resources (hostConfig example_env []
           \<lparr>ResourceUsageData.CPU = 0, ResourceUsageData.Memory = 9223372036854775808,
            ResourceUsageData.GPU = 0\<rparr>))) = - 9223372036854775808 \<and>
   \<not> f64_sign 0x3FF004189374BC6A \<and>
   f64_val 0x3FF004189374BC6A * 1000000000 = 4402444557615103515625 / 4398046511104 \<and>
   sint (NanoCPUs (Resources (hostConfig example_env []
           \<lparr>ResourceUsageData.CPU = 0x3FF004189374BC6A, ResourceUsageData.Memory = 0,
            ResourceUsageData.GPU = 0\<rparr>))) = 1000999999 \<and>
   \<not> f64_sign 0x4202A05F20000000 \<and>
   f64_val 0x4202A05F20000000 * 1000000000 = 10000000000000000000 \<and>
   sint (NanoCPUs (Resources (hostConfig example_env []
           \<lparr>ResourceUsageData.CPU = 0x4202A05F20000000, ResourceUsageData.Memory = 0,
            ResourceUsageData.GPU = 0\<rparr>))) = - 9223372036854775808"
proof -
  have large: "f64_to_int64 (out_of_range_int64 example_env) 0x43E158E460913D00 = - (2 ^ 63)"
    by (simp add: f64_to_int64_def f64_is_finite_def example_large_fields f64_mant_def
        f64_expo_def example_env_def)
  show ?thesis
    by (simp add: hostConfig_def example_float_quota example_float_exact example_float_fields
        example_large_fields example_large_exact example_large_product large)
qed

subsection \<open>Start failures\<close>

text \<open>Reaching the start of the container.\<close>

lemma start_reach_start:
  assumes "RunShard_start env c' d cid' w = (r, w')"
    and "Call_ContainerStart c cid \<in> set (calls w')"
    and "Call_ContainerStart c cid \<notin> set (calls w)"
  shows "r = fst (RunShard_start env c d cid w0)"
  using assms by (auto simp: RunShard_start_eq RunShard_wait_eq split: option.splits)

lemma create_reach_start:
  assumes "RunShard_create env e c0 shard d mounts w = (r, w')"
    and "Call_ContainerStart c cid \<in> set (calls w')"
    and "Call_ContainerStart c cid \<notin> set (calls w)"
  shows "r = fst (RunShard_start env c d cid w0)"
  using assms
  unfolding RunShard_create_def Let_def
  by (auto simp: emit_def split: option.splits sum.splits prod.splits if_splits
      dest!: start_reach_start[where c = c and cid = cid and ?w0.0 = w0])

lemma RunShard_reach_start:
  assumes "Call_ContainerStart c cid \<in> set (calls (snd (RunShard env e ctx shard d fs)))"
  shows "fst (RunShard env e ctx shard d fs) = fst (RunShard_start env c d cid w0)"
proof -
  obtain r w' where b: "RunShard_body env e (WithSpan ctx ''pkg/executor/docker.RunShard'') shard d \<lparr>dirs = fs, calls = []\<rparr> = (r, w')"
    by (cases "RunShard_body env e (WithSpan ctx ''pkg/executor/docker.RunShard'') shard d \<lparr>dirs = fs, calls = []\<rparr>")
  from assms b have "Call_ContainerStart c cid \<in> set (calls w')"
    by (auto simp: RunShard_def Let_def cleanupJob_calls split: if_splits)
  with RunShard_body_cases[OF b] have "r = fst (RunShard_start env c d cid w0)"
    by (auto dest: create_reach_start[where ?w0.0 = w0])
  with b show ?thesis by (simp add: RunShard_def Let_def)
qed

lemma Contains_iff: "Contains s substr \<longleftrightarrow> (\<exists>pre post. s = pre @ substr @ post)"
  by (simp add: Contains_def sublist_def)

text \<open>
  Claim C7. When the start of the container fails, the result is the failure that wraps
  the start error: with the message \<open>Executable file not found\<close> if the message of the
  start error contains \<open>executable file not found\<close>, and with the message
  \<open>failed to start container\<close> otherwise.
\<close>

theorem RunShard_start_failure:
  assumes reach:
    "Call_ContainerStart c containerID
       \<in> set (calls (snd (RunShard env e ctx shard jobResultsDir fs)))"
    and fails: "ContainerStart env c containerID = Some containerStartError"
  shows
    "((\<exists>pre post. Error containerStartError = pre @ ''executable file not found'' @ post) \<longrightarrow>
        fst (RunShard env e ctx shard jobResultsDir fs) =
          FailResult (Wrap containerStartError ''Executable file not found'')) \<and>
     (\<not> (\<exists>pre post. Error containerStartError = pre @ ''executable file not found'' @ post) \<longrightarrow>
        fst (RunShard env e ctx shard jobResultsDir fs) =
          FailResult (Wrap containerStartError ''failed to start container''))"
  using RunShard_reach_start[OF reach, of undefined] fails
  by (auto simp: RunShard_start_eq Contains_iff)

theorem RunShard_start_failure_witness:
  "fst (RunShard (example_env\<lparr>ContainerStart := \<lambda>c containerID. Some example_start_error\<rparr>)
          example_executor (Caller 0) example_shard ''/results'' Map.empty) =
     FailResult (Wrap example_start_error ''Executable file not found'') \<and>
   fst (RunShard (example_env\<lparr>ContainerStart := \<lambda>c containerID. Some (New ''no such image'')\<rparr>)
          example_executor (Caller 0) example_shard ''/results'' Map.empty) =
     FailResult (Wrap (New ''no such image'') ''failed to start container'')"
proof -
  let ?c = "WithLogger (WithSpan (Caller 0) ''pkg/executor/docker.RunShard'') ''Container'' ''c1''"
  let ?env1 = "example_env\<lparr>ContainerStart := \<lambda>c containerID. Some example_start_error\<rparr>"
  let ?env2 = "example_env\<lparr>ContainerStart := \<lambda>c containerID. Some (New ''no such image'')\<rparr>"
  have reach1: "Call_ContainerStart ?c ''c1''
      \<in> set (calls (snd (RunShard ?env1 example_executor (Caller 0) example_shard ''/results'' Map.empty)))"
    by (simp add: run_defs)
  have reach2: "Call_ContainerStart ?c ''c1''
      \<in> set (calls (snd (RunShard ?env2 example_executor (Caller 0) example_shard ''/results'' Map.empty)))"
    by (simp add: run_defs)
  have fails1: "ContainerStart ?env1 ?c ''c1'' = Some example_start_error"
    by simp
  have fails2: "ContainerStart ?env2 ?c ''c1'' = Some (New ''no such image'')"
    by simp
  have yes: "\<exists>pre post. Error example_start_error = pre @ ''executable file not found'' @ post"
    unfolding example_start_error_def Error.simps
    by (rule exI[of _ "''OCI runtime create failed: exec: ls: ''"], rule exI[of _ "'' in $PATH''"]) simp
  have no: "\<not> (\<exists>pre post. Error (New ''no such image'') = pre @ ''executable file not found'' @ post)"
    using Contains_iff[of "''no such image''" "''executable file not found''"]
    by (simp add: Contains_def sublist_code prefix_code)
  show ?thesis
    using RunShard_start_failure[OF reach1 fails1] RunShard_start_failure[OF reach2 fails2] yes no
    by blast
qed

subsection \<open>Cleanup\<close>

text \<open>The outcome of the removal is not read by the body of \<open>RunShard\<close>.\<close>

lemma RunShard_outputs_remove_irrelevant:
  "RunShard_outputs (env\<lparr>RemoveObjectsWithLabel := remove\<rparr>) d outs ms w =
   RunShard_outputs env d outs ms w"
  by (induction outs arbitrary: ms w) (auto simp: Mkdir_def Let_def split: option.splits)

lemma RunShard_wait_remove_irrelevant:
  "RunShard_wait (env\<lparr>RemoveObjectsWithLabel := remove\<rparr>) c d cid w = RunShard_wait env c d cid w"
  by (simp add: RunShard_wait_def Let_def)

lemma RunShard_start_remove_irrelevant:
  "RunShard_start (env\<lparr>RemoveObjectsWithLabel := remove\<rparr>) c d cid w = RunShard_start env c d cid w"
  by (simp add: RunShard_start_def RunShard_wait_remove_irrelevant Let_def
      cong: option.case_cong)

lemma RunShard_create_remove_irrelevant:
  "RunShard_create (env\<lparr>RemoveObjectsWithLabel := remove\<rparr>) e c shard d mounts w =
   RunShard_create env e c shard d mounts w"
  by (simp add: RunShard_create_def RunShard_start_remove_irrelevant hostConfig_def
      jobContainerLabels_def labelJobValue_def Let_def
      cong: option.case_cong sum.case_cong prod.case_cong if_cong)

lemma RunShard_body_remove_irrelevant:
  "RunShard_body (env\<lparr>RemoveObjectsWithLabel := remove\<rparr>) e c shard d w =
   RunShard_body env e c shard d w"
  by (simp add: RunShard_body_def RunShard_create_remove_irrelevant
      RunShard_outputs_remove_irrelevant Let_def
      cong: option.case_cong sum.case_cong prod.case_cong if_cong)

text \<open>
  Claim C8. Every invocation of \<open>RunShard\<close> returns the result of its body and ends with
  the cleanup, whatever path the body took: the calls of the invocation are those of the
  body followed by those of \<open>cleanupJob\<close>. The cleanup removes the objects that carry
  the shard's job label, under a context derived from the background context with a
  timeout of one minute (not from the caller's), and logs the outcome: at debug level
  when the removal succeeded, at error level with the error otherwise. With the
  keep-stack toggle set it does nothing. The result of the invocation does not depend
  on the outcome of the removal.
\<close>

theorem RunShard_cleanup_last:
  fixes env :: env and e :: Executor and ctx :: ctx and shard :: JobShard
    and jobResultsDir :: string and fs :: "string \<rightharpoonup> FileMode"
  defines "c1 \<equiv> WithSpan ctx ''pkg/executor/docker.RunShard''"
  defines "body \<equiv> RunShard_body env e c1 shard jobResultsDir \<lparr>dirs = fs, calls = []\<rparr>"
  defines "separateCtx \<equiv> WithTimeout Background (60 * 1000000000)"
  defines "err \<equiv> RemoveObjectsWithLabel env separateCtx ''bacalhau-jobID''
                   (Executor.ID e @ shard_ID env shard)"
  shows
    "fst (RunShard env e ctx shard jobResultsDir fs) = fst body \<and>
     dirs (snd (RunShard env e ctx shard jobResultsDir fs)) = dirs (snd body) \<and>
     calls (snd (RunShard env e ctx shard jobResultsDir fs)) =
       calls (snd body) @
       (if ShouldKeepStack env then []
        else [Call_RemoveObjectsWithLabel separateCtx ''bacalhau-jobID''
                (Executor.ID e @ shard_ID env shard),
              Log_Msg c1 (if err = None then DebugLevel else ErrorLevel) err
                ''Cleaned up job Docker resources'']) \<and>
     (\<forall>remove.
        fst (RunShard (env\<lparr>RemoveObjectsWithLabel := remove\<rparr>) e ctx shard jobResultsDir fs) =
        fst (RunShard env e ctx shard jobResultsDir fs))"
  unfolding c1_def body_def separateCtx_def err_def RunShard_def Let_def
  by (simp add: RunShard_body_remove_irrelevant cleanupJob_calls cleanupJob_dirs
      labelJobName_def labelJobValue_def Minute_def split: prod.splits)

theorem RunShard_cleanup_last_witness:
  "calls (snd (RunShard (example_env\<lparr>GetShardStorageSpec := \<lambda>c shard. Inl (New ''no storage''),
                          RemoveObjectsWithLabel := \<lambda>c key v. Some (New ''daemon gone'')\<rparr>)
                 example_executor (Caller 0) example_shard ''/results'' Map.empty)) =
     [Call_RemoveObjectsWithLabel (WithTimeout Background 60000000000) ''bacalhau-jobID''
        ''node1job1:0'',
      Log_Msg (WithSpan (Caller 0) ''pkg/executor/docker.RunShard'') ErrorLevel
        (Some (New ''daemon gone'')) ''Cleaned up job Docker resources''] \<and>
   fst (RunShard (example_env\<lparr>GetShardStorageSpec := \<lambda>c shard. Inl (New ''no storage''),
                          RemoveObjectsWithLabel := \<lambda>c key v. Some (New ''daemon gone'')\<rparr>)
                 example_executor (Caller 0) example_shard ''/results'' Map.empty) =
     FailResult (New ''no storage'') \<and>
   calls (snd (RunShard (example_env\<lparr>ShouldKeepStack := True,
                          GetShardStorageSpec := \<lambda>c shard. Inl (New ''no storage'')\<rparr>)
                 example_executor (Caller 0) example_shard ''/results'' Map.empty)) = []"
  using
    RunShard_cleanup_last [of
      "example_env\<lparr>GetShardStorageSpec := \<lambda>c shard. Inl (New ''no storage''),
                     RemoveObjectsWithLabel := \<lambda>c key v. Some (New ''daemon gone'')\<rparr>"
      example_executor "Caller 0" example_shard "''/results''" Map.empty]
    RunShard_cleanup_last [of
      "example_env\<lparr>ShouldKeepStack := True,
                     GetShardStorageSpec := \<lambda>c shard. Inl (New ''no storage'')\<rparr>"
      example_executor "Caller 0" example_shard "''/results''" Map.empty]
  by (simp add: RunShard_body_def example_env_def example_executor_def example_shard_def
      Sprint_def digits.simps)

subsection \<open>Names and labels\<close>

text \<open>The decimal numeral of an integer determines the integer.\<close>

lemma digit_char_inj:
  assumes "a < 10" "b < 10" "''0123456789'' ! a = ''0123456789'' ! b"
  shows "a = b"
proof -
  have "distinct ''0123456789''" by simp
  moreover have "a < length ''0123456789''" "b < length ''0123456789''" using assms by simp_all
  ultimately show ?thesis using assms(3) by (simp only: nth_eq_iff_index_eq)
qed

lemma digit_char_in: "a < 10 \<Longrightarrow> ''0123456789'' ! a \<in> set ''0123456789''"
  by (rule nth_mem) simp

lemma digits_not_Nil: "digits n \<noteq> []"
  by (subst digits.simps) simp

lemma digits_chars: "set (digits n) \<subseteq> set ''0123456789''"
proof (induction n rule: digits.induct)
  case (1 n)
  show ?case
  proof (cases "n < 10")
    case True
    then show ?thesis using digit_char_in[of n] by (subst digits.simps) simp
  next
    case False
    have "n mod 10 < 10" by simp
    from digit_char_in[OF this] 1[OF False] False show ?thesis
      by (subst digits.simps) simp
  qed
qed

lemma digits_no_dash: "CHR ''-'' \<notin> set (digits n)"
  using digits_chars[of n] by auto

lemma digits_inj: "digits n = digits m \<Longrightarrow> n = m"
proof (induction n arbitrary: m rule: digits.induct)
  case (1 n)
  show ?case
  proof (cases "n < 10")
    case n: True
    show ?thesis
    proof (cases "m < 10")
      case True
      with n 1(2) show ?thesis
        by (auto simp: digits.simps[of n] digits.simps[of m] dest: digit_char_inj)
    next
      case False
      with n 1(2) digits_not_Nil[of "m div 10"] show ?thesis
        by (auto simp: digits.simps[of n] digits.simps[of m])
    qed
  next
    case n: False
    show ?thesis
    proof (cases "m < 10")
      case True
      with n 1(2) digits_not_Nil[of "n div 10"] show ?thesis
        by (auto simp: digits.simps[of n] digits.simps[of m])
    next
      case False
      with n 1(2) have eq: "digits (n div 10) = digits (m div 10)"
        "''0123456789'' ! (n mod 10) = ''0123456789'' ! (m mod 10)"
        by (auto simp: digits.simps[of n] digits.simps[of m])
      from 1(1)[OF n eq(1)] have "n div 10 = m div 10" .
      moreover from eq(2) have "n mod 10 = m mod 10"
        by (intro digit_char_inj) simp_all
      ultimately show ?thesis
        by (metis div_mult_mod_eq)
    qed
  qed
qed

lemma Sprint_inj: "Sprint i = Sprint j \<Longrightarrow> i = j"
proof -
  assume eq: "Sprint i = Sprint j"
  have hd: "\<And>n. hd (digits n) \<noteq> CHR ''-''"
    using digits_no_dash digits_not_Nil by (metis hd_in_set)
  show ?thesis
  proof (cases "i < 0"; cases "j < 0")
    assume "i < 0" "j < 0"
    with eq have "nat (- i) = nat (- j)" by (auto simp: Sprint_def dest: digits_inj)
    with \<open>i < 0\<close> \<open>j < 0\<close> show ?thesis by simp
  next
    assume "i < 0" "\<not> j < 0"
    with eq have "CHR ''-'' # digits (nat (- i)) = digits (nat j)" by (simp add: Sprint_def)
    then have "hd (digits (nat j)) = CHR ''-''" by (metis list.sel(1))
    with hd show ?thesis by simp
  next
    assume "\<not> i < 0" "j < 0"
    with eq have "digits (nat i) = CHR ''-'' # digits (nat (- j))" by (simp add: Sprint_def)
    then have "hd (digits (nat i)) = CHR ''-''" by (metis list.sel(1))
    with hd show ?thesis by simp
  next
    assume "\<not> i < 0" "\<not> j < 0"
    with eq have "nat i = nat j" by (auto simp: Sprint_def dest: digits_inj)
    with \<open>\<not> i < 0\<close> \<open>\<not> j < 0\<close> show ?thesis by simp
  qed
qed

lemma takeWhile_sep: "x \<notin> set xs \<Longrightarrow> takeWhile (\<lambda>c. c \<noteq> x) (xs @ x # ys) = xs"
  by (induction xs) auto

lemma append_sep_eq_iff:
  assumes "x \<notin> set xs" "x \<notin> set xs'"
  shows "xs @ x # ys = xs' @ x # ys' \<longleftrightarrow> xs = xs' \<and> ys = ys'"
proof
  assume eq: "xs @ x # ys = xs' @ x # ys'"
  have "takeWhile (\<lambda>c. c \<noteq> x) (xs @ x # ys) = xs"
    using assms(1) by (rule takeWhile_sep)
  moreover have "takeWhile (\<lambda>c. c \<noteq> x) (xs' @ x # ys') = xs'"
    using assms(2) by (rule takeWhile_sep)
  ultimately have "xs = xs'" using eq by simp
  with eq show "xs = xs' \<and> ys = ys'" by simp
qed simp

lemma jobContainerName_eq:
  "jobContainerName e shard =
     ''bacalhau-'' @ Executor.ID e @ ''-'' @ Metadata.ID (Metadata (Job shard)) @ ''-''
       @ Sprint (Index shard) @ ''-executor''"
  by (simp add: jobContainerName_def dockerObjectName_def)

text \<open>
  Claim C6, as the code has it. The container name is
  \<open>bacalhau-{executorID}-{jobID}-{shardIndex}-executor\<close> and the job label is the
  executor ID followed by the shard's identity string; both are functions of these
  parts. The parts are joined without escaping, so different pairs can give the same
  name or label, as executor \<open>a-b\<close> with job \<open>c\<close> and executor \<open>a\<close> with job
  \<open>b-c\<close> do. Names are equal only for equal executor ID,
  job ID and index when the two executor IDs have the same length and the two job IDs
  have the same length, or when none of the four contains a dash; labels are equal only
  for equal executor ID and equal shard identity when the two executor IDs have the same
  length.
\<close>

theorem name_and_label_unique:
  fixes env :: env and e e' :: Executor and shard shard' :: JobShard
  defines "jobID \<equiv> Metadata.ID (Metadata (Job shard))"
  defines "jobID' \<equiv> Metadata.ID (Metadata (Job shard'))"
  shows
    "jobContainerName e shard =
       ''bacalhau-'' @ Executor.ID e @ ''-'' @ jobID @ ''-'' @ Sprint (Index shard) @ ''-executor'' \<and>
     labelJobValue env e shard = Executor.ID e @ shard_ID env shard \<and>
     jobContainerLabels env e shard =
       [(''bacalhau-executor'', Executor.ID e), (''bacalhau-jobID'', Executor.ID e @ shard_ID env shard)] \<and>
     ((length (Executor.ID e) = length (Executor.ID e') \<and> length jobID = length jobID') \<or>
      (CHR ''-'' \<notin> set (Executor.ID e) \<and> CHR ''-'' \<notin> set (Executor.ID e') \<and>
       CHR ''-'' \<notin> set jobID \<and> CHR ''-'' \<notin> set jobID') \<longrightarrow>
        (jobContainerName e shard = jobContainerName e' shard' \<longleftrightarrow>
           Executor.ID e = Executor.ID e' \<and> jobID = jobID' \<and> Index shard = Index shard')) \<and>
     (length (Executor.ID e) = length (Executor.ID e') \<longrightarrow>
        (labelJobValue env e shard = labelJobValue env e' shard' \<longleftrightarrow>
           Executor.ID e = Executor.ID e' \<and> shard_ID env shard = shard_ID env shard'))"
proof (intro conjI impI)
  show "jobContainerName e shard =
       ''bacalhau-'' @ Executor.ID e @ ''-'' @ jobID @ ''-'' @ Sprint (Index shard) @ ''-executor''"
    by (simp add: jobContainerName_eq jobID_def)
  show "labelJobValue env e shard = Executor.ID e @ shard_ID env shard"
    by (simp add: labelJobValue_def)
  show "jobContainerLabels env e shard =
       [(''bacalhau-executor'', Executor.ID e), (''bacalhau-jobID'', Executor.ID e @ shard_ID env shard)]"
    by (simp add: jobContainerLabels_def labelJobValue_def labelExecutorName_def labelJobName_def)
next
  assume "length (Executor.ID e) = length (Executor.ID e')"
  then show "labelJobValue env e shard = labelJobValue env e' shard' \<longleftrightarrow>
           Executor.ID e = Executor.ID e' \<and> shard_ID env shard = shard_ID env shard'"
    by (simp add: labelJobValue_def)
next
  assume h: "(length (Executor.ID e) = length (Executor.ID e') \<and> length jobID = length jobID') \<or>
      (CHR ''-'' \<notin> set (Executor.ID e) \<and> CHR ''-'' \<notin> set (Executor.ID e') \<and>
       CHR ''-'' \<notin> set jobID \<and> CHR ''-'' \<notin> set jobID')"
  have "Executor.ID e @ CHR ''-'' # jobID @ CHR ''-'' # Sprint (Index shard) @ ''-executor'' =
        Executor.ID e' @ CHR ''-'' # jobID' @ CHR ''-'' # Sprint (Index shard') @ ''-executor''
        \<longleftrightarrow> Executor.ID e = Executor.ID e' \<and> jobID = jobID' \<and> Index shard = Index shard'"
    using h
  proof
    assume "length (Executor.ID e) = length (Executor.ID e') \<and> length jobID = length jobID'"
    then show ?thesis by (auto dest: Sprint_inj)
  next
    assume "CHR ''-'' \<notin> set (Executor.ID e) \<and> CHR ''-'' \<notin> set (Executor.ID e') \<and>
       CHR ''-'' \<notin> set jobID \<and> CHR ''-'' \<notin> set jobID'"
    then have d: "CHR ''-'' \<notin> set (Executor.ID e)" "CHR ''-'' \<notin> set (Executor.ID e')"
      "CHR ''-'' \<notin> set jobID" "CHR ''-'' \<notin> set jobID'"
      by simp_all
    show ?thesis
      unfolding append_sep_eq_iff[OF d(1,2)] append_sep_eq_iff[OF d(3,4)]
      by (auto dest: Sprint_inj)
  qed
  then show "jobContainerName e shard = jobContainerName e' shard' \<longleftrightarrow>
           Executor.ID e = Executor.ID e' \<and> jobID = jobID' \<and> Index shard = Index shard'"
    by (simp add: jobContainerName_eq jobID_def jobID'_def)
qed

theorem name_and_label_unique_witness:
  "jobContainerName \<lparr>Executor.ID = ''node1''\<rparr> (shard_of_job ''job1'' 0) =
     ''bacalhau-node1-job1-0-executor'' \<and>
   jobContainerName \<lparr>Executor.ID = ''node1''\<rparr> (shard_of_job ''job1'' 0) \<noteq>
     jobContainerName \<lparr>Executor.ID = ''node2''\<rparr> (shard_of_job ''job1'' 0) \<and>
   jobContainerName \<lparr>Executor.ID = ''node1''\<rparr> (shard_of_job ''job1'' 0) \<noteq>
     jobContainerName \<lparr>Executor.ID = ''node1''\<rparr> (shard_of_job ''job1'' 12) \<and>
   labelJobValue example_env \<lparr>Executor.ID = ''node1''\<rparr> (shard_of_job ''job1'' 0) \<noteq>
     labelJobValue example_env \<lparr>Executor.ID = ''node2''\<rparr> (shard_of_job ''job1'' 0)"
  using
    name_and_label_unique [of "\<lparr>Executor.ID = ''node1''\<rparr>" "shard_of_job ''job1'' 0"
      example_env "\<lparr>Executor.ID = ''node2''\<rparr>" "shard_of_job ''job1'' 0"]
    name_and_label_unique [of "\<lparr>Executor.ID = ''node1''\<rparr>" "shard_of_job ''job1'' 0"
      example_env "\<lparr>Executor.ID = ''node1''\<rparr>" "shard_of_job ''job1'' 12"]
  by (simp add: shard_of_job_def Sprint_def digits.simps jobContainerName_def
      dockerObjectName_def labelJobValue_def example_env_def)

text \<open>
  Two different pairs with the same container name, and, for a shard identity of the
  form \<open>jobID:index\<close>, two different pairs with the same job label.
\<close>

theorem container_name_collision:
  "(\<lparr>Executor.ID = ''a-b''\<rparr>, shard_of_job ''c'' 0) \<noteq> (\<lparr>Executor.ID = ''a''\<rparr>, shard_of_job ''b-c'' 0) \<and>
   jobContainerName \<lparr>Executor.ID = ''a-b''\<rparr> (shard_of_job ''c'' 0) =
     jobContainerName \<lparr>Executor.ID = ''a''\<rparr> (shard_of_job ''b-c'' 0) \<and>
   (\<lparr>Executor.ID = ''ab''\<rparr>, shard_of_job ''c'' 0) \<noteq> (\<lparr>Executor.ID = ''a''\<rparr>, shard_of_job ''bc'' 0) \<and>
   labelJobValue example_env \<lparr>Executor.ID = ''ab''\<rparr> (shard_of_job ''c'' 0) =
     labelJobValue example_env \<lparr>Executor.ID = ''a''\<rparr> (shard_of_job ''bc'' 0)"
  by (simp add: jobContainerName_def dockerObjectName_def shard_of_job_def labelJobValue_def
      example_env_def)

subsection \<open>Request verification\<close>

text \<open>
  Claim C10. \<open>verifySubmitRequest\<close> returns \<open>nil\<close> exactly when the client ID, the
  signature and the public key are non-empty, the public key matches the client ID
  (\<open>PublicKeyMatchesID\<close> returns \<open>true\<close> and no error), and the JSON of the payload is
  produced and verifies against the signature under that key. The checks run in this
  order and the first one that fails decides the error; the seven errors have pairwise
  different messages, whatever the helpers' own errors say.
\<close>

theorem verifySubmitRequest_nil_iff:
  fixes req :: "'p submitRequest"
    and PublicKeyMatchesID :: "string \<Rightarrow> string \<Rightarrow> bool \<times> error"
    and JSONMarshalWithMax :: "'p JobCreatePayload_scheme \<Rightarrow> go_error + string"
    and Verify :: "string \<Rightarrow> string \<Rightarrow> string \<Rightarrow> error"
  defines "r \<equiv> verifySubmitRequest PublicKeyMatchesID JSONMarshalWithMax Verify req"
  defines "cid \<equiv> ClientID (JobCreatePayload req)"
  defines "m \<equiv> PublicKeyMatchesID (ClientPublicKey req) cid"
  shows
    "(r = None \<longleftrightarrow>
        cid \<noteq> [] \<and> ClientSignature req \<noteq> [] \<and> ClientPublicKey req \<noteq> [] \<and>
        m = (True, None) \<and>
        (\<exists>jsonData. JSONMarshalWithMax (JobCreatePayload req) = Inr jsonData \<and>
           Verify jsonData (ClientSignature req) (ClientPublicKey req) = None)) \<and>
     (cid = [] \<longrightarrow> r = Some (New ''job create payload must contain a client ID'')) \<and>
     (cid \<noteq> [] \<and> ClientSignature req = [] \<longrightarrow>
        r = Some (New ''client's signature is required'')) \<and>
     (cid \<noteq> [] \<and> ClientSignature req \<noteq> [] \<and> ClientPublicKey req = [] \<longrightarrow>
        r = Some (New ''client's public key is required'')) \<and>
     (cid \<noteq> [] \<and> ClientSignature req \<noteq> [] \<and> ClientPublicKey req \<noteq> [] \<longrightarrow>
        (\<forall>err. snd m = Some err \<longrightarrow>
           r = Some (Errorf_w ''error verifying client ID: '' err)) \<and>
        (m = (False, None) \<longrightarrow>
           r = Some (New ''client's public key does not match client ID'')) \<and>
        (m = (True, None) \<longrightarrow>
           (\<forall>err. JSONMarshalWithMax (JobCreatePayload req) = Inl err \<longrightarrow>
              r = Some (Errorf_w ''error marshaling job data: '' err)) \<and>
           (\<forall>jsonData err. JSONMarshalWithMax (JobCreatePayload req) = Inr jsonData \<and>
              Verify jsonData (ClientSignature req) (ClientPublicKey req) = Some err \<longrightarrow>
              r = Some (Errorf_w ''client's signature is invalid: '' err)))) \<and>
     distinct
       [Error (New ''job create payload must contain a client ID''),
        Error (New ''client's signature is required''),
        Error (New ''client's public key is required''),
        Error (Errorf_w ''error verifying client ID: '' e1),
        Error (New ''client's public key does not match client ID''),
        Error (Errorf_w ''error marshaling job data: '' e2),
        Error (Errorf_w ''client's signature is invalid: '' e3)]"
  unfolding r_def m_def cid_def verifySubmitRequest_def
  by (cases "PublicKeyMatchesID (ClientPublicKey req) (ClientID (JobCreatePayload req))")
     (auto split: option.splits sum.splits)

theorem verifySubmitRequest_nil_iff_witness:
  "verifySubmitRequest
     (\<lambda>key cid. (key = cid, None))
     (\<lambda>payload. Inr (ClientID payload))
     (\<lambda>jsonData signature key. if signature = jsonData @ key then None else Some (New ''no''))
     \<lparr>JobCreatePayload = \<lparr>ClientID = ''abc''\<rparr>, ClientSignature = ''abcabc'',
      ClientPublicKey = ''abc''\<rparr> = None \<and>
   verifySubmitRequest
     (\<lambda>key cid. (key = cid, None))
     (\<lambda>payload. Inr (ClientID payload))
     (\<lambda>jsonData signature key. if signature = jsonData @ key then None else Some (New ''no''))
     \<lparr>JobCreatePayload = \<lparr>ClientID = ''abc''\<rparr>, ClientSignature = ''forged'',
      ClientPublicKey = ''abc''\<rparr> = Some (Errorf_w ''client's signature is invalid: '' (New ''no''))"
  using
    verifySubmitRequest_nil_iff [of
      "\<lambda>key cid. (key = cid, None)"
      "\<lambda>payload. Inr (ClientID payload)"
      "\<lambda>jsonData signature key. if signature = jsonData @ key then None else Some (New ''no'')"
      "\<lparr>JobCreatePayload = \<lparr>ClientID = ''abc''\<rparr>, ClientSignature = ''abcabc'',
        ClientPublicKey = ''abc''\<rparr>"]
    verifySubmitRequest_nil_iff [of
      "\<lambda>key cid. (key = cid, None)"
      "\<lambda>payload. Inr (ClientID payload)"
      "\<lambda>jsonData signature key. if signature = jsonData @ key then None else Some (New ''no'')"
      "\<lparr>JobCreatePayload = \<lparr>ClientID = ''abc''\<rparr>, ClientSignature = ''forged'',
        ClientPublicKey = ''abc''\<rparr>"]
  by simp

end
